theory Spec2Isabelle
  imports Complex_Main "HOL-Library.Log_Nat" "HOL-Library.Char_ord" "HOL-Library.List_Lexorder"
    "HOL-Library.Product_Lexorder" "HOL-Library.Code_Target_Nat"
begin

section \<open>Python values used by the bot\<close>

text \<open>
  The model follows the four modules \<^verbatim>\<open>domain.py\<close>, \<^verbatim>\<open>storage.py\<close>, \<^verbatim>\<open>services.py\<close> and
  \<^verbatim>\<open>bot.py\<close>. Python \<^verbatim>\<open>int\<close> is \<^typ>\<open>int\<close>; a Python \<^verbatim>\<open>str\<close> is the \<^typ>\<open>string\<close> of its UTF-8
  bytes (the program only concatenates, compares and encodes strings, and SQLite orders
  \<^verbatim>\<open>TEXT\<close> bytewise); an exception is a value of \<open>error\<close> on the left of a sum.
\<close>

datatype error = ValueError | IntegrityError | OverflowError | ZeroDivisionError

subsection \<open>Formatting integers: \<^verbatim>\<open>str(n)\<close> and zero padding\<close>

definition digit_char :: "nat \<Rightarrow> char" where
  "digit_char d = char_of (48 + d)"

fun str_nat :: "nat \<Rightarrow> string" where
  "str_nat n = (if n < 10 then [digit_char n] else str_nat (n div 10) @ [digit_char (n mod 10)])"

declare str_nat.simps [simp del]

definition str_int :: "int \<Rightarrow> string" where
  "str_int i = (if i < 0 then CHR ''-'' # str_nat (nat (- i)) else str_nat (nat i))"

text \<open>
  CPython refuses to print an int of more than 4300 decimal digits (the default of
  \<^verbatim>\<open>sys.set_int_max_str_digits\<close>): \<^verbatim>\<open>str(n)\<close> and an f-string field then raise \<^verbatim>\<open>ValueError\<close>.
\<close>

definition str_fits :: "int \<Rightarrow> bool" where
  "str_fits i = (\<bar>i\<bar> < 10 ^ 4300)"

definition py_str :: "int \<Rightarrow> error + string" where
  "py_str i = (if str_fits i then Inr (str_int i) else Inl ValueError)"

text \<open>\<^verbatim>\<open>"%0wd"\<close> for a number of at most \<open>w\<close> digits: the \<open>w\<close> low decimal digits.\<close>

fun zero_pad :: "nat \<Rightarrow> nat \<Rightarrow> string" where
  "zero_pad 0 n = []"
| "zero_pad (Suc w) n = zero_pad w (n div 10) @ [digit_char (n mod 10)]"

subsection \<open>Floats\<close>

text \<open>
  A Python float is an IEEE binary64 value: a rational, an infinity or NaN. Comparisons
  with NaN are false. \<open>fl64\<close> rounds a rational to the nearest binary64 value, ties to
  even, with gradual underflow; \<open>None\<close> is overflow (the rounded value reaches \<open>2\<^sup>1\<^sup>0\<^sup>2\<^sup>4\<close>).
\<close>

datatype pyfloat = Finite rat | PosInf | NegInf | NaN

fun float_lt :: "pyfloat \<Rightarrow> pyfloat \<Rightarrow> bool" where
  "float_lt NaN y = False"
| "float_lt x NaN = False"
| "float_lt (Finite a) (Finite b) = (a < b)"
| "float_lt x NegInf = False"
| "float_lt PosInf y = False"
| "float_lt NegInf y = True"
| "float_lt x PosInf = True"

fun float_le :: "pyfloat \<Rightarrow> pyfloat \<Rightarrow> bool" where
  "float_le NaN y = False"
| "float_le x NaN = False"
| "float_le (Finite a) (Finite b) = (a \<le> b)"
| "float_le NegInf y = True"
| "float_le x PosInf = True"
| "float_le x NegInf = False"
| "float_le PosInf y = False"

definition float_gt :: "pyfloat \<Rightarrow> pyfloat \<Rightarrow> bool" where
  "float_gt x y = float_lt y x"

definition float_ge :: "pyfloat \<Rightarrow> pyfloat \<Rightarrow> bool" where
  "float_ge x y = float_le y x"

definition rne :: "rat \<Rightarrow> int" where
  \<comment> \<open>round to the nearest integer, ties to even\<close>
  "rne x = (let f = \<lfloor>x\<rfloor>; r = x - of_int f
            in if r < 1 / 2 then f else if 1 / 2 < r then f + 1 else if even f then f else f + 1)"

definition pow2 :: "int \<Rightarrow> rat" where
  "pow2 k = (if 0 \<le> k then 2 ^ nat k else 1 / 2 ^ nat (- k))"

definition ilog2 :: "rat \<Rightarrow> int" where
  \<comment> \<open>for \<open>0 < q\<close>: the exponent \<open>e\<close> with \<open>2\<^sup>e \<le> q < 2\<^sup>e\<^sup>+\<^sup>1\<close>\<close>
  "ilog2 q = (let e = bitlen (fst (quotient_of q)) - bitlen (snd (quotient_of q))
              in if pow2 e \<le> q then e else e - 1)"

definition fl64 :: "rat \<Rightarrow> rat option" where
  "fl64 q = (if q = 0 then Some 0
             else let u = pow2 (max (ilog2 \<bar>q\<bar>) (- 1022) - 52);
                      r = of_int (rne (q / u)) * u
                  in if r \<noteq> 0 \<and> 1024 \<le> ilog2 \<bar>r\<bar> then None else Some r)"

definition lit_0_8 :: pyfloat where
  \<comment> \<open>the literal \<^verbatim>\<open>0.8\<close>: the binary64 value nearest to 4/5\<close>
  "lit_0_8 = Finite (3602879701896397 / 4503599627370496)"

definition lit_0_5 :: pyfloat where
  "lit_0_5 = Finite (1 / 2)"

definition py_truediv :: "int \<Rightarrow> int \<Rightarrow> error + pyfloat" where
  \<comment> \<open>\<^verbatim>\<open>a / b\<close> on ints: the correctly rounded quotient\<close>
  "py_truediv a b =
     (if b = 0 then Inl ZeroDivisionError
      else case fl64 (of_int a / of_int b) of None \<Rightarrow> Inl OverflowError | Some r \<Rightarrow> Inr (Finite r))"

definition py_round4 :: "pyfloat \<Rightarrow> error + pyfloat" where
  \<comment> \<open>\<^verbatim>\<open>round(x, 4)\<close>: the exact value rounded half-even to 4 decimals, as a float\<close>
  "py_round4 x =
     (case x of
        Finite r \<Rightarrow>
          (case fl64 (of_int (rne (r * 10000)) / 10000) of
             None \<Rightarrow> Inl OverflowError
           | Some y \<Rightarrow> Inr (Finite y))
      | _ \<Rightarrow> Inr x)"

section \<open>domain.py\<close>

datatype Skill = BODY | CAPITAL | PRODUCTIVITY | GAME_THINKING | PSYCHE | LANGUAGE

datatype TaskStatus = ASSIGNED | DONE | FAILED

subsection \<open>Calendar dates\<close>

text \<open>
  \<^verbatim>\<open>datetime.date\<close>: a day of the proleptic Gregorian calendar between 0001-01-01 and
  9999-12-31. \<open>date + timedelta(days=n)\<close> is the date \<open>n\<close> days later and raises
  \<^verbatim>\<open>OverflowError\<close> past the last day.
\<close>

record date =
  year :: nat
  month :: nat
  day :: nat

definition is_leap :: "nat \<Rightarrow> bool" where
  "is_leap y = (y mod 4 = 0 \<and> (y mod 100 \<noteq> 0 \<or> y mod 400 = 0))"

definition days_in_month :: "nat \<Rightarrow> nat \<Rightarrow> nat" where
  "days_in_month y m =
     (if m = 2 then (if is_leap y then 29 else 28)
      else if m = 4 \<or> m = 6 \<or> m = 9 \<or> m = 11 then 30 else 31)"

definition valid_date :: "date \<Rightarrow> bool" where
  "valid_date d =
     (1 \<le> year d \<and> year d \<le> 9999 \<and> 1 \<le> month d \<and> month d \<le> 12 \<and>
      1 \<le> day d \<and> day d \<le> days_in_month (year d) (month d))"

definition date_le :: "date \<Rightarrow> date \<Rightarrow> bool" where
  "date_le a b = ((year a, month a, day a) \<le> (year b, month b, day b))"

definition next_day :: "date \<Rightarrow> date" where
  "next_day d =
     (if day d < days_in_month (year d) (month d) then d\<lparr>day := day d + 1\<rparr>
      else if month d < 12 then d\<lparr>month := month d + 1, day := 1\<rparr>
      else d\<lparr>year := year d + 1, month := 1, day := 1\<rparr>)"

fun add_days :: "date \<Rightarrow> nat \<Rightarrow> error + date" where
  "add_days d 0 = Inr d"
| "add_days d (Suc n) =
     (if year (next_day d) > 9999 then Inl OverflowError else add_days (next_day d) n)"

definition isoformat :: "date \<Rightarrow> string" where
  "isoformat d = zero_pad 4 (year d) @ ''-'' @ zero_pad 2 (month d) @ ''-'' @ zero_pad 2 (day d)"

subsection \<open>The dataclasses\<close>

text \<open>
  A field name shared by several dataclasses carries a prefix in all but one of them:
  \<open>t_\<close> for \<^verbatim>\<open>TaskTemplate\<close>, \<open>e_\<close> for \<^verbatim>\<open>TaskEvent\<close>, \<open>w_\<close> and \<open>m_\<close> for the week and month
  summaries; \<open>d_done\<close> is the field \<^verbatim>\<open>done\<close> of \<^verbatim>\<open>DaySummary\<close> (a keyword here).
\<close>

record TaskTemplate =
  t_template_id :: string
  t_skill :: Skill
  t_title :: string
  min_minutes :: int
  max_minutes :: int

record TaskAssignment =
  assignment_id :: string
  user_id :: int
  template_id :: string
  title :: string
  skill :: Skill
  date_assigned :: date
  status :: TaskStatus

record TaskEvent =
  event_id :: string
  e_assignment_id :: string
  e_user_id :: int
  e_status :: TaskStatus
  created_at :: string
  e_note :: "string option"


record WeekSummary =
  week_start :: date
  week_end :: date
  w_completion_rate :: pyfloat
  overload_flag :: bool
  stagnation_flag :: bool
  w_critical_failures :: int

record MonthSummary =
  month_start :: date
  month_end :: date
  m_completion_rate :: pyfloat
  closed_weeks :: int
  m_critical_failures :: int
  level_change :: string

record WeeklyAdjustment =
  adj_week_start :: date
  adjustment_note :: string

record LevelRules =
  level :: int
  active_skills :: "Skill list"
  max_daily_tasks :: int
  min_daily_tasks :: int

definition completion_rate :: "int \<Rightarrow> int \<Rightarrow> error + pyfloat" where
  "completion_rate dn tot =
     (if tot = 0 then Inr (Finite 0)
      else case py_truediv dn tot of Inl e \<Rightarrow> Inl e | Inr x \<Rightarrow> py_round4 x)"

definition count_status :: "TaskStatus \<Rightarrow> TaskAssignment list \<Rightarrow> int" where
  \<comment> \<open>\<^verbatim>\<open>sum(1 for item in items if item.status == st)\<close>\<close>
  "count_status st items = int (length (filter (\<lambda>item. status item = st) items))"


section \<open>storage.py\<close>

text \<open>
  The SQLite database: one list of rows per table, in rowid (insertion) order. A row of
  \<^verbatim>\<open>task_assignments\<close> has the columns of \<^verbatim>\<open>TaskAssignment\<close>, with the date and the enums
  stored as their text and read back by \<^verbatim>\<open>date.fromisoformat\<close>, \<^verbatim>\<open>Skill(...)\<close> and
  \<^verbatim>\<open>TaskStatus(...)\<close>, so a row is kept as the dataclass value. Every method runs in a
  connection of its own that commits when the body ends and is only closed when the body
  raises: an operation returns \<open>Inr\<close> the database after the commit, or \<open>Inl\<close> the exception,
  and then the database is the one before the call. The connection never switches
  \<^verbatim>\<open>PRAGMA foreign_keys\<close> on, so the \<^verbatim>\<open>FOREIGN KEY\<close> clauses are not enforced; the primary
  keys are. Binding a Python int outside 64 bits raises \<^verbatim>\<open>OverflowError\<close>.
\<close>

record storage =
  users :: "(int \<times> string) list"
  task_templates :: "TaskTemplate list"
  task_assignments :: "TaskAssignment list"
  task_events :: "TaskEvent list"

definition sql_int :: "int \<Rightarrow> bool" where
  "sql_int i = (- (2 ^ 63) \<le> i \<and> i < 2 ^ 63)"

definition ensure_user :: "storage \<Rightarrow> int \<Rightarrow> string \<Rightarrow> error + storage" where
  \<comment> \<open>\<^verbatim>\<open>INSERT OR IGNORE\<close>; the string is \<^verbatim>\<open>datetime.utcnow().isoformat()\<close>\<close>
  "ensure_user s uid now =
     (if \<not> sql_int uid then Inl OverflowError
      else if uid \<in> set (map fst (users s)) then Inr s
      else Inr (s\<lparr>users := users s @ [(uid, now)]\<rparr>))"

definition upsert_template :: "storage \<Rightarrow> TaskTemplate \<Rightarrow> error + storage" where
  \<comment> \<open>\<^verbatim>\<open>INSERT ... ON CONFLICT(template_id) DO UPDATE\<close>\<close>
  "upsert_template s t =
     (if \<not> sql_int (min_minutes t) \<or> \<not> sql_int (max_minutes t) then Inl OverflowError
      else if t_template_id t \<in> set (map t_template_id (task_templates s))
      then Inr (s\<lparr>task_templates :=
                  map (\<lambda>r. if t_template_id r = t_template_id t then t else r) (task_templates s)\<rparr>)
      else Inr (s\<lparr>task_templates := task_templates s @ [t]\<rparr>))"

definition list_templates :: "storage \<Rightarrow> TaskTemplate list" where
  "list_templates s = task_templates s"

fun insert_assignments :: "TaskAssignment list \<Rightarrow> TaskAssignment list \<Rightarrow> error + TaskAssignment list" where
  \<comment> \<open>\<^verbatim>\<open>executemany\<close> of a plain \<^verbatim>\<open>INSERT\<close>: row after row into the table\<close>
  "insert_assignments rows [] = Inr rows"
| "insert_assignments rows (a # as) =
     (if \<not> sql_int (user_id a) then Inl OverflowError
      else if assignment_id a \<in> set (map assignment_id rows) then Inl IntegrityError
      else insert_assignments (rows @ [a]) as)"

definition create_assignments :: "storage \<Rightarrow> TaskAssignment list \<Rightarrow> error + storage" where
  "create_assignments s as =
     (case insert_assignments (task_assignments s) as of
        Inl e \<Rightarrow> Inl e
      | Inr rows \<Rightarrow> Inr (s\<lparr>task_assignments := rows\<rparr>))"

definition set_status :: "string \<Rightarrow> TaskStatus \<Rightarrow> TaskAssignment list \<Rightarrow> TaskAssignment list" where
  \<comment> \<open>\<^verbatim>\<open>UPDATE task_assignments SET status = ? WHERE assignment_id = ?\<close>\<close>
  "set_status aid st rows = map (\<lambda>a. if assignment_id a = aid then a\<lparr>status := st\<rparr> else a) rows"

definition record_event :: "storage \<Rightarrow> TaskEvent \<Rightarrow> error + storage" where
  "record_event s ev =
     (if \<not> sql_int (e_user_id ev) then Inl OverflowError
      else if event_id ev \<in> set (map event_id (task_events s)) then Inl IntegrityError
      else Inr (s\<lparr>task_events := task_events s @ [ev],
                  task_assignments := set_status (e_assignment_id ev) (e_status ev) (task_assignments s)\<rparr>))"

definition list_assignments_for_date :: "storage \<Rightarrow> int \<Rightarrow> date \<Rightarrow> error + TaskAssignment list" where
  "list_assignments_for_date s uid d =
     (if \<not> sql_int uid then Inl OverflowError
      else Inr (sort_key assignment_id
             (filter (\<lambda>a. user_id a = uid \<and> isoformat (date_assigned a) = isoformat d)
                (task_assignments s))))"

definition list_assignments_between :: "storage \<Rightarrow> int \<Rightarrow> date \<Rightarrow> date \<Rightarrow> error + TaskAssignment list" where
  \<comment> \<open>\<^verbatim>\<open>BETWEEN\<close> and \<^verbatim>\<open>ORDER BY\<close> compare the stored ISO texts bytewise\<close>
  "list_assignments_between s uid start_date end_date =
     (if \<not> sql_int uid then Inl OverflowError
      else Inr (sort_key (\<lambda>a. (isoformat (date_assigned a), assignment_id a))
             (filter (\<lambda>a. user_id a = uid \<and> isoformat start_date \<le> isoformat (date_assigned a)
                           \<and> isoformat (date_assigned a) \<le> isoformat end_date)
                (task_assignments s))))"

definition update_assignment_status :: "storage \<Rightarrow> string \<Rightarrow> TaskStatus \<Rightarrow> error + storage" where
  "update_assignment_status s aid st =
     Inr (s\<lparr>task_assignments := set_status aid st (task_assignments s)\<rparr>)"

definition fetch_assignment :: "storage \<Rightarrow> string \<Rightarrow> TaskAssignment option" where
  "fetch_assignment s aid = find (\<lambda>a. assignment_id a = aid) (task_assignments s)"

section \<open>The standard library: hashlib and random\<close>

text \<open>
  \<^verbatim>\<open>hashlib.sha256\<close> and \<^verbatim>\<open>random.Random\<close> are not code of the repository: they are a
  parameter of the model, a record of functions. \<open>sha256 L b\<close> is the digest of the
  bytes \<open>b\<close> read as a big-endian number, \<open>Random L seed\<close> a fresh generator,
  \<open>randint L g a b\<close> the number drawn in the state \<open>g\<close> together with the next state, and
  \<open>sample L g n k\<close> the positions drawn for \<^verbatim>\<open>sample(population, k)\<close> on a population of
  \<open>n\<close> elements. \<open>lib_ok\<close> is what the library's documentation promises of them.
\<close>

record 'g pylib =
  sha256 :: "string \<Rightarrow> nat"
  Random :: "int \<Rightarrow> 'g"
  randint :: "'g \<Rightarrow> int \<Rightarrow> int \<Rightarrow> int \<times> 'g"
  sample :: "'g \<Rightarrow> nat \<Rightarrow> nat \<Rightarrow> nat list \<times> 'g"

definition lib_ok :: "'g pylib \<Rightarrow> bool" where
  "lib_ok L =
     ((\<forall>g a b. a \<le> b \<longrightarrow> a \<le> fst (randint L g a b) \<and> fst (randint L g a b) \<le> b) \<and>
      (\<forall>g n k. k \<le> n \<longrightarrow> length (fst (sample L g n k)) = k \<and> distinct (fst (sample L g n k))
                 \<and> (\<forall>i \<in> set (fst (sample L g n k)). i < n)))"

definition hex_char :: "nat \<Rightarrow> char" where
  "hex_char d = (if d < 10 then char_of (48 + d) else char_of (87 + d))"

fun hexn :: "nat \<Rightarrow> nat \<Rightarrow> string" where
  \<comment> \<open>the \<open>w\<close> low hexadecimal digits, lowercase\<close>
  "hexn 0 v = []"
| "hexn (Suc w) v = hexn w (v div 16) @ [hex_char (v mod 16)]"

definition hexdigest :: "'g pylib \<Rightarrow> string \<Rightarrow> string" where
  \<comment> \<open>\<^verbatim>\<open>hashlib.sha256(b).hexdigest()\<close>: 64 lowercase hexadecimal digits\<close>
  "hexdigest L b = hexn 64 (sha256 L b)"

definition hex_val :: "char \<Rightarrow> int" where
  "hex_val c = (let n = of_char c :: nat
                in if 48 \<le> n \<and> n \<le> 57 then int n - 48
                   else if 97 \<le> n \<and> n \<le> 102 then int n - 87
                   else int n - 55)"

definition int_of_hex :: "string \<Rightarrow> int" where
  \<comment> \<open>\<^verbatim>\<open>int(s, 16)\<close> on a string of hexadecimal digits\<close>
  "int_of_hex s = foldl (\<lambda>acc c. 16 * acc + hex_val c) 0 s"

definition rng_randint :: "'g pylib \<Rightarrow> 'g \<Rightarrow> int \<Rightarrow> int \<Rightarrow> error + int \<times> 'g" where
  \<comment> \<open>\<^verbatim>\<open>rng.randint(a, b)\<close>: \<^verbatim>\<open>ValueError\<close> on an empty range\<close>
  "rng_randint L g a b = (if b < a then Inl ValueError else Inr (randint L g a b))"

definition rng_sample :: "'g pylib \<Rightarrow> 'g \<Rightarrow> 'a list \<Rightarrow> int \<Rightarrow> error + 'a list \<times> 'g" where
  \<comment> \<open>\<^verbatim>\<open>rng.sample(population, k=k)\<close>: \<^verbatim>\<open>ValueError\<close> when \<open>k\<close> is negative or too large\<close>
  "rng_sample L g population k =
     (if k < 0 \<or> int (length population) < k then Inl ValueError
      else Inr (map (\<lambda>i. population ! i) (fst (sample L g (length population) (nat k))),
                snd (sample L g (length population) (nat k))))"

section \<open>services.py\<close>

definition title_body :: string where
  \<comment> \<open>UTF-8 bytes of the Russian title of body-01 (physical activity)\<close>
  "title_body =
     [CHR 0xD0, CHR 0xA4, CHR 0xD0, CHR 0xB8, CHR 0xD0, CHR 0xB7, CHR 0xD0, CHR 0xB8,
     CHR 0xD1, CHR 0x87, CHR 0xD0, CHR 0xB5, CHR 0xD1, CHR 0x81, CHR 0xD0, CHR 0xBA,
     CHR 0xD0, CHR 0xB0, CHR 0xD1, CHR 0x8F] @ '' '' @ [CHR 0xD0, CHR 0xB0, CHR 0xD0,
     CHR 0xBA, CHR 0xD1, CHR 0x82, CHR 0xD0, CHR 0xB8, CHR 0xD0, CHR 0xB2, CHR 0xD0,
     CHR 0xBD, CHR 0xD0, CHR 0xBE, CHR 0xD1, CHR 0x81, CHR 0xD1, CHR 0x82, CHR 0xD1,
     CHR 0x8C]"

definition title_capital :: string where
  \<comment> \<open>UTF-8 bytes of the Russian title of capital-01 (expense tracking)\<close>
  "title_capital =
     [CHR 0xD0, CHR 0xA3, CHR 0xD1, CHR 0x87, CHR 0xD1, CHR 0x91, CHR 0xD1, CHR 0x82] @ '' ''
     @ [CHR 0xD1, CHR 0x80, CHR 0xD0, CHR 0xB0, CHR 0xD1, CHR 0x81, CHR 0xD1, CHR 0x85,
     CHR 0xD0, CHR 0xBE, CHR 0xD0, CHR 0xB4, CHR 0xD0, CHR 0xBE, CHR 0xD0, CHR 0xB2]"

definition title_productivity :: string where
  \<comment> \<open>UTF-8 bytes of the Russian title of productivity-01 (plan of the day)\<close>
  "title_productivity =
     [CHR 0xD0, CHR 0x9F, CHR 0xD0, CHR 0xBB, CHR 0xD0, CHR 0xB0, CHR 0xD0, CHR 0xBD] @ '' ''
     @ [CHR 0xD0, CHR 0xB4, CHR 0xD0, CHR 0xBD, CHR 0xD1, CHR 0x8F]"

definition title_game :: string where
  \<comment> \<open>UTF-8 bytes of the Russian title of game-01 (analysis of a decision)\<close>
  "title_game =
     [CHR 0xD0, CHR 0x90, CHR 0xD0, CHR 0xBD, CHR 0xD0, CHR 0xB0, CHR 0xD0, CHR 0xBB,
     CHR 0xD0, CHR 0xB8, CHR 0xD0, CHR 0xB7] @ '' '' @ [CHR 0xD1, CHR 0x80, CHR 0xD0,
     CHR 0xB5, CHR 0xD1, CHR 0x88, CHR 0xD0, CHR 0xB5, CHR 0xD0, CHR 0xBD, CHR 0xD0,
     CHR 0xB8, CHR 0xD1, CHR 0x8F]"

definition title_psyche :: string where
  \<comment> \<open>UTF-8 bytes of the Russian title of psyche-01 (recording one's state)\<close>
  "title_psyche =
     [CHR 0xD0, CHR 0xA4, CHR 0xD0, CHR 0xB8, CHR 0xD0, CHR 0xBA, CHR 0xD1, CHR 0x81,
     CHR 0xD0, CHR 0xB0, CHR 0xD1, CHR 0x86, CHR 0xD0, CHR 0xB8, CHR 0xD1, CHR 0x8F] @ '' ''
     @ [CHR 0xD1, CHR 0x81, CHR 0xD0, CHR 0xBE, CHR 0xD1, CHR 0x81, CHR 0xD1, CHR 0x82,
     CHR 0xD0, CHR 0xBE, CHR 0xD1, CHR 0x8F, CHR 0xD0, CHR 0xBD, CHR 0xD0, CHR 0xB8,
     CHR 0xD1, CHR 0x8F]"

definition title_language :: string where
  \<comment> \<open>UTF-8 bytes of the Russian title of language-01 (language practice)\<close>
  "title_language =
     [CHR 0xD0, CHR 0x9F, CHR 0xD1, CHR 0x80, CHR 0xD0, CHR 0xB0, CHR 0xD0, CHR 0xBA,
     CHR 0xD1, CHR 0x82, CHR 0xD0, CHR 0xB8, CHR 0xD0, CHR 0xBA, CHR 0xD0, CHR 0xB0] @ '' ''
     @ [CHR 0xD1, CHR 0x8F, CHR 0xD0, CHR 0xB7, CHR 0xD1, CHR 0x8B, CHR 0xD0, CHR 0xBA,
     CHR 0xD0, CHR 0xB0]"

definition DEFAULT_TEMPLATES :: "TaskTemplate list" where
  "DEFAULT_TEMPLATES =
     [\<lparr>t_template_id = ''body-01'', t_skill = BODY, t_title = title_body,
        min_minutes = 15, max_minutes = 30\<rparr>,
      \<lparr>t_template_id = ''capital-01'', t_skill = CAPITAL, t_title = title_capital,
        min_minutes = 10, max_minutes = 20\<rparr>,
      \<lparr>t_template_id = ''productivity-01'', t_skill = PRODUCTIVITY, t_title = title_productivity,
        min_minutes = 10, max_minutes = 20\<rparr>,
      \<lparr>t_template_id = ''game-01'', t_skill = GAME_THINKING, t_title = title_game,
        min_minutes = 10, max_minutes = 15\<rparr>,
      \<lparr>t_template_id = ''psyche-01'', t_skill = PSYCHE, t_title = title_psyche,
        min_minutes = 5, max_minutes = 10\<rparr>,
      \<lparr>t_template_id = ''language-01'', t_skill = LANGUAGE, t_title = title_language,
        min_minutes = 15, max_minutes = 25\<rparr>]"

definition DEFAULT_RULES :: LevelRules where
  "DEFAULT_RULES =
     \<lparr>level = 1,
      active_skills = [BODY, CAPITAL, PRODUCTIVITY, GAME_THINKING, PSYCHE, LANGUAGE],
      max_daily_tasks = 3,
      min_daily_tasks = 2\<rparr>"

record DailyPlan =
  plan_date_value :: date
  assignments :: "TaskAssignment list"

fun seed_all :: "storage \<Rightarrow> TaskTemplate list \<Rightarrow> error + storage" where
  "seed_all s [] = Inr s"
| "seed_all s (t # ts) = (case upsert_template s t of Inl e \<Rightarrow> Inl e | Inr s' \<Rightarrow> seed_all s' ts)"

definition seed_templates :: "storage \<Rightarrow> error + storage" where
  "seed_templates s = seed_all s DEFAULT_TEMPLATES"

definition assignment_id_of :: "'g pylib \<Rightarrow> int \<Rightarrow> date \<Rightarrow> string \<Rightarrow> error + string" where
  \<comment> \<open>\<^verbatim>\<open>TaskService._assignment_id\<close>\<close>
  "assignment_id_of L uid dv tid =
     (case py_str uid of
        Inl e \<Rightarrow> Inl e
      | Inr u \<Rightarrow> Inr (take 16 (hexdigest L (u @ '':'' @ isoformat dv @ '':'' @ tid))))"

definition seeded_rng :: "'g pylib \<Rightarrow> int \<Rightarrow> date \<Rightarrow> error + 'g" where
  \<comment> \<open>\<^verbatim>\<open>TaskService._seeded_rng\<close>\<close>
  "seeded_rng L uid dv =
     (case py_str uid of
        Inl e \<Rightarrow> Inl e
      | Inr u \<Rightarrow> Inr (Random L (int_of_hex (hexdigest L (u @ '':'' @ isoformat dv)))))"

definition make_assignment :: "'g pylib \<Rightarrow> int \<Rightarrow> date \<Rightarrow> TaskTemplate \<Rightarrow> error + TaskAssignment" where
  "make_assignment L uid dv template =
     (case assignment_id_of L uid dv (t_template_id template) of
        Inl e \<Rightarrow> Inl e
      | Inr aid \<Rightarrow>
          Inr \<lparr>assignment_id = aid,
               user_id = uid,
               template_id = t_template_id template,
               title = t_title template,
               skill = t_skill template,
               date_assigned = dv,
               status = ASSIGNED\<rparr>)"

fun make_assignments :: "'g pylib \<Rightarrow> int \<Rightarrow> date \<Rightarrow> TaskTemplate list \<Rightarrow> error + TaskAssignment list" where
  \<comment> \<open>the \<^verbatim>\<open>tuple(... for template in selected)\<close>: the first exception ends it\<close>
  "make_assignments L uid dv [] = Inr []"
| "make_assignments L uid dv (template # rest) =
     (case make_assignment L uid dv template of
        Inl e \<Rightarrow> Inl e
      | Inr a \<Rightarrow>
          (case make_assignments L uid dv rest of
             Inl e \<Rightarrow> Inl e
           | Inr as \<Rightarrow> Inr (a # as)))"

definition eligible_templates :: "storage \<Rightarrow> LevelRules \<Rightarrow> TaskTemplate list" where
  \<comment> \<open>the list \<^verbatim>\<open>templates\<close> of \<^verbatim>\<open>generate_daily_plan\<close> after the fallback\<close>
  "eligible_templates s rules =
     (let templates = filter (\<lambda>t. t_skill t \<in> set (active_skills rules)) (list_templates s)
      in if templates = [] then DEFAULT_TEMPLATES else templates)"

definition generate_daily_plan ::
  "'g pylib \<Rightarrow> storage \<Rightarrow> int \<Rightarrow> date \<Rightarrow> LevelRules \<Rightarrow> error + DailyPlan \<times> storage" where
  "generate_daily_plan L s uid dv rules =
     (let templates = eligible_templates s rules
      in case seeded_rng L uid dv of
           Inl e \<Rightarrow> Inl e
         | Inr rng \<Rightarrow>
             (case rng_randint L rng (min_daily_tasks rules) (max_daily_tasks rules) of
                Inl e \<Rightarrow> Inl e
              | Inr (count, rng1) \<Rightarrow>
                  (case rng_sample L rng1 templates (min count (int (length templates))) of
                     Inl e \<Rightarrow> Inl e
                   | Inr (selected, rng2) \<Rightarrow>
                       (case make_assignments L uid dv selected of
                          Inl e \<Rightarrow> Inl e
                        | Inr plan \<Rightarrow>
                            (case create_assignments s plan of
                               Inl e \<Rightarrow> Inl e
                             | Inr s' \<Rightarrow> Inr (\<lparr>plan_date_value = dv, assignments = plan\<rparr>, s'))))))"

definition record_result ::
  "storage \<Rightarrow> string \<Rightarrow> string \<Rightarrow> int \<Rightarrow> string \<Rightarrow> TaskStatus \<Rightarrow> string option \<Rightarrow> error + TaskEvent \<times> storage" where
  \<comment> \<open>the first two strings are \<^verbatim>\<open>str(uuid.uuid4())\<close> and \<^verbatim>\<open>datetime.utcnow()\<close> at the call\<close>
  "record_result s uuid now uid aid st nt =
     (let event = \<lparr>event_id = uuid, e_assignment_id = aid, e_user_id = uid, e_status = st,
                   created_at = now, e_note = nt\<rparr>
      in case record_event s event of Inl e \<Rightarrow> Inl e | Inr s' \<Rightarrow> Inr (event, s'))"


definition weekly_summary :: "storage \<Rightarrow> int \<Rightarrow> date \<Rightarrow> error + WeekSummary" where
  "weekly_summary s uid wstart =
     (case add_days wstart 6 of
        Inl e \<Rightarrow> Inl e
      | Inr wend \<Rightarrow>
          (case list_assignments_between s uid wstart wend of
             Inl e \<Rightarrow> Inl e
           | Inr items \<Rightarrow>
               (let dn = count_status DONE items;
                    fl = count_status FAILED items;
                    tot = int (length items)
                in case completion_rate dn tot of
                     Inl e \<Rightarrow> Inl e
                   | Inr completion \<Rightarrow>
                       Inr \<lparr>week_start = wstart,
                            week_end = wend,
                            w_completion_rate = completion,
                            overload_flag = (7 * max_daily_tasks DEFAULT_RULES < tot),
                            stagnation_flag = (dn = 0 \<and> 0 < tot),
                            w_critical_failures = (if 5 \<le> fl then fl else 0)\<rparr>)))"

definition note_stagnation :: string where
  \<comment> \<open>UTF-8 bytes of the Russian literal: reduce load: stagnation\<close>
  "note_stagnation =
     [CHR 0xD0, CHR 0xA1, CHR 0xD0, CHR 0xBD, CHR 0xD0, CHR 0xB8, CHR 0xD0, CHR 0xB6,
     CHR 0xD0, CHR 0xB5, CHR 0xD0, CHR 0xBD, CHR 0xD0, CHR 0xB8, CHR 0xD0, CHR 0xB5] @ '' ''
     @ [CHR 0xD0, CHR 0xBD, CHR 0xD0, CHR 0xB0, CHR 0xD0, CHR 0xB3, CHR 0xD1, CHR 0x80,
     CHR 0xD1, CHR 0x83, CHR 0xD0, CHR 0xB7, CHR 0xD0, CHR 0xBA, CHR 0xD0, CHR 0xB8] @ '': ''
     @ [CHR 0xD0, CHR 0xB7, CHR 0xD0, CHR 0xB0, CHR 0xD1, CHR 0x81, CHR 0xD1, CHR 0x82,
     CHR 0xD0, CHR 0xBE, CHR 0xD0, CHR 0xB9]"

definition note_overload :: string where
  \<comment> \<open>UTF-8 bytes of the Russian literal: reduce load: overload\<close>
  "note_overload =
     [CHR 0xD0, CHR 0xA1, CHR 0xD0, CHR 0xBD, CHR 0xD0, CHR 0xB8, CHR 0xD0, CHR 0xB6,
     CHR 0xD0, CHR 0xB5, CHR 0xD0, CHR 0xBD, CHR 0xD0, CHR 0xB8, CHR 0xD0, CHR 0xB5] @ '' ''
     @ [CHR 0xD0, CHR 0xBD, CHR 0xD0, CHR 0xB0, CHR 0xD0, CHR 0xB3, CHR 0xD1, CHR 0x80,
     CHR 0xD1, CHR 0x83, CHR 0xD0, CHR 0xB7, CHR 0xD0, CHR 0xBA, CHR 0xD0, CHR 0xB8] @ '': ''
     @ [CHR 0xD0, CHR 0xBF, CHR 0xD0, CHR 0xB5, CHR 0xD1, CHR 0x80, CHR 0xD0, CHR 0xB5,
     CHR 0xD0, CHR 0xB3, CHR 0xD1, CHR 0x80, CHR 0xD1, CHR 0x83, CHR 0xD0, CHR 0xB7]"

definition note_increase :: string where
  \<comment> \<open>UTF-8 bytes of the Russian literal: increase load: stable completion\<close>
  "note_increase =
     [CHR 0xD0, CHR 0xA3, CHR 0xD1, CHR 0x81, CHR 0xD0, CHR 0xB8, CHR 0xD0, CHR 0xBB,
     CHR 0xD0, CHR 0xB5, CHR 0xD0, CHR 0xBD, CHR 0xD0, CHR 0xB8, CHR 0xD0, CHR 0xB5] @ '' ''
     @ [CHR 0xD0, CHR 0xBD, CHR 0xD0, CHR 0xB0, CHR 0xD0, CHR 0xB3, CHR 0xD1, CHR 0x80,
     CHR 0xD1, CHR 0x83, CHR 0xD0, CHR 0xB7, CHR 0xD0, CHR 0xBA, CHR 0xD0, CHR 0xB8] @ '': ''
     @ [CHR 0xD1, CHR 0x81, CHR 0xD1, CHR 0x82, CHR 0xD0, CHR 0xB0, CHR 0xD0, CHR 0xB1,
     CHR 0xD0, CHR 0xB8, CHR 0xD0, CHR 0xBB, CHR 0xD1, CHR 0x8C, CHR 0xD0, CHR 0xBD,
     CHR 0xD0, CHR 0xBE, CHR 0xD0, CHR 0xB5] @ '' '' @ [CHR 0xD0, CHR 0xB2, CHR 0xD1,
     CHR 0x8B, CHR 0xD0, CHR 0xBF, CHR 0xD0, CHR 0xBE, CHR 0xD0, CHR 0xBB, CHR 0xD0,
     CHR 0xBD, CHR 0xD0, CHR 0xB5, CHR 0xD0, CHR 0xBD, CHR 0xD0, CHR 0xB8, CHR 0xD0,
     CHR 0xB5]"

definition note_no_change :: string where
  \<comment> \<open>UTF-8 bytes of the Russian literal: load without changes\<close>
  "note_no_change =
     [CHR 0xD0, CHR 0x9D, CHR 0xD0, CHR 0xB0, CHR 0xD0, CHR 0xB3, CHR 0xD1, CHR 0x80,
     CHR 0xD1, CHR 0x83, CHR 0xD0, CHR 0xB7, CHR 0xD0, CHR 0xBA, CHR 0xD0, CHR 0xB0] @ '' ''
     @ [CHR 0xD0, CHR 0xB1, CHR 0xD0, CHR 0xB5, CHR 0xD0, CHR 0xB7] @ '' '' @ [CHR 0xD0,
     CHR 0xB8, CHR 0xD0, CHR 0xB7, CHR 0xD0, CHR 0xBC, CHR 0xD0, CHR 0xB5, CHR 0xD0,
     CHR 0xBD, CHR 0xD0, CHR 0xB5, CHR 0xD0, CHR 0xBD, CHR 0xD0, CHR 0xB8, CHR 0xD0,
     CHR 0xB9]"

definition weekly_adjustment :: "WeekSummary \<Rightarrow> WeeklyAdjustment" where
  "weekly_adjustment summary =
     \<lparr>adj_week_start = week_start summary,
      adjustment_note =
        (if stagnation_flag summary then note_stagnation
         else if overload_flag summary then note_overload
         else if float_gt (w_completion_rate summary) lit_0_8 then note_increase
         else note_no_change)\<rparr>"

definition level_decision :: "pyfloat \<Rightarrow> int \<Rightarrow> int \<Rightarrow> int \<Rightarrow> error + string" where
  \<comment> \<open>\<^verbatim>\<open>TaskService._level_decision\<close>; \<^verbatim>\<open>if critical_failures:\<close> tests for a nonzero int\<close>
  "level_decision completion cweeks cfailures lvl =
     (if cfailures \<noteq> 0 then Inr ''hold''
      else if float_ge completion lit_0_8 \<and> 4 \<le> cweeks
      then (case py_str (lvl + 1) of Inl e \<Rightarrow> Inl e | Inr t \<Rightarrow> Inr (''promote:'' @ t))
      else if float_lt completion lit_0_5 then Inr ''hold''
      else Inr ''hold'')"

definition monthly_summary :: "storage \<Rightarrow> int \<Rightarrow> date \<Rightarrow> int \<Rightarrow> error + MonthSummary" where
  "monthly_summary s uid mstart lvl =
     (case add_days mstart 29 of
        Inl e \<Rightarrow> Inl e
      | Inr mend \<Rightarrow>
          (case list_assignments_between s uid mstart mend of
             Inl e \<Rightarrow> Inl e
           | Inr items \<Rightarrow>
               (let dn = count_status DONE items;
                    fl = count_status FAILED items;
                    tot = int (length items)
                in case completion_rate dn tot of
                     Inl e \<Rightarrow> Inl e
                   | Inr completion \<Rightarrow>
                       (let cweeks = 4;
                            cfailures = (if 15 \<le> fl then fl else 0)
                        in case level_decision completion cweeks cfailures lvl of
                             Inl e \<Rightarrow> Inl e
                           | Inr change \<Rightarrow>
                               Inr \<lparr>month_start = mstart,
                                    month_end = mend,
                                    m_completion_rate = completion,
                                    closed_weeks = cweeks,
                                    m_critical_failures = cfailures,
                                    level_change = change\<rparr>))))"

section \<open>bot.py\<close>

text \<open>
  A command handler takes the database, what the clock, \<^verbatim>\<open>uuid4\<close> and the update supply
  (\<open>None\<close> for a missing \<^verbatim>\<open>effective_user\<close>), and returns the reply it sends, if any, with
  the database afterwards; an exception that leaves the handler is \<open>Inl\<close>.
\<close>

definition reply_not_found :: string where
  \<comment> \<open>UTF-8 bytes of the Russian reply: task not found.\<close>
  "reply_not_found =
     [CHR 0xD0, CHR 0x97, CHR 0xD0, CHR 0xB0, CHR 0xD0, CHR 0xB4, CHR 0xD0, CHR 0xB0,
     CHR 0xD0, CHR 0xBD, CHR 0xD0, CHR 0xB8, CHR 0xD0, CHR 0xB5] @ '' '' @ [CHR 0xD0,
     CHR 0xBD, CHR 0xD0, CHR 0xB5] @ '' '' @ [CHR 0xD0, CHR 0xBD, CHR 0xD0, CHR 0xB0,
     CHR 0xD0, CHR 0xB9, CHR 0xD0, CHR 0xB4, CHR 0xD0, CHR 0xB5, CHR 0xD0, CHR 0xBD,
     CHR 0xD0, CHR 0xBE] @ ''.''"

definition reply_usage_done :: string where
  \<comment> \<open>UTF-8 bytes of the Russian reply: give the task id: /done <task_id>\<close>
  "reply_usage_done =
     [CHR 0xD0, CHR 0xA3, CHR 0xD0, CHR 0xBA, CHR 0xD0, CHR 0xB0, CHR 0xD0, CHR 0xB6,
     CHR 0xD0, CHR 0xB8] @ '' ID '' @ [CHR 0xD0, CHR 0xB7, CHR 0xD0, CHR 0xB0, CHR 0xD0,
     CHR 0xB4, CHR 0xD0, CHR 0xB0, CHR 0xD0, CHR 0xBD, CHR 0xD0, CHR 0xB8, CHR 0xD1,
     CHR 0x8F] @ '': /done <task_id>''"

definition reply_usage_fail :: string where
  \<comment> \<open>UTF-8 bytes of the Russian reply: give the task id: /fail <task_id>\<close>
  "reply_usage_fail =
     [CHR 0xD0, CHR 0xA3, CHR 0xD0, CHR 0xBA, CHR 0xD0, CHR 0xB0, CHR 0xD0, CHR 0xB6,
     CHR 0xD0, CHR 0xB8] @ '' ID '' @ [CHR 0xD0, CHR 0xB7, CHR 0xD0, CHR 0xB0, CHR 0xD0,
     CHR 0xB4, CHR 0xD0, CHR 0xB0, CHR 0xD0, CHR 0xBD, CHR 0xD0, CHR 0xB8, CHR 0xD1,
     CHR 0x8F] @ '': /fail <task_id>''"

definition reply_recorded_done :: string where
  \<comment> \<open>UTF-8 bytes of the Russian reply: recorded: done.\<close>
  "reply_recorded_done =
     [CHR 0xD0, CHR 0x97, CHR 0xD0, CHR 0xB0, CHR 0xD1, CHR 0x84, CHR 0xD0, CHR 0xB8,
     CHR 0xD0, CHR 0xBA, CHR 0xD1, CHR 0x81, CHR 0xD0, CHR 0xB8, CHR 0xD1, CHR 0x80,
     CHR 0xD0, CHR 0xBE, CHR 0xD0, CHR 0xB2, CHR 0xD0, CHR 0xB0, CHR 0xD0, CHR 0xBD,
     CHR 0xD0, CHR 0xBE] @ '': '' @ [CHR 0xD0, CHR 0xB2, CHR 0xD1, CHR 0x8B, CHR 0xD0,
     CHR 0xBF, CHR 0xD0, CHR 0xBE, CHR 0xD0, CHR 0xBB, CHR 0xD0, CHR 0xBD, CHR 0xD0,
     CHR 0xB5, CHR 0xD0, CHR 0xBD, CHR 0xD0, CHR 0xBE] @ ''.''"

definition reply_recorded_failed :: string where
  \<comment> \<open>UTF-8 bytes of the Russian reply: recorded: failure.\<close>
  "reply_recorded_failed =
     [CHR 0xD0, CHR 0x97, CHR 0xD0, CHR 0xB0, CHR 0xD1, CHR 0x84, CHR 0xD0, CHR 0xB8,
     CHR 0xD0, CHR 0xBA, CHR 0xD1, CHR 0x81, CHR 0xD0, CHR 0xB8, CHR 0xD1, CHR 0x80,
     CHR 0xD0, CHR 0xBE, CHR 0xD0, CHR 0xB2, CHR 0xD0, CHR 0xB0, CHR 0xD0, CHR 0xBD,
     CHR 0xD0, CHR 0xBE] @ '': '' @ [CHR 0xD0, CHR 0xBF, CHR 0xD1, CHR 0x80, CHR 0xD0,
     CHR 0xBE, CHR 0xD0, CHR 0xB2, CHR 0xD0, CHR 0xB0, CHR 0xD0, CHR 0xBB] @ ''.''"

definition reply_day_header :: string where
  \<comment> \<open>UTF-8 bytes of the Russian reply header: tasks for today:\<close>
  "reply_day_header =
     [CHR 0xD0, CHR 0x97, CHR 0xD0, CHR 0xB0, CHR 0xD0, CHR 0xB4, CHR 0xD0, CHR 0xB0,
     CHR 0xD0, CHR 0xBD, CHR 0xD0, CHR 0xB8, CHR 0xD1, CHR 0x8F] @ '' '' @ [CHR 0xD0,
     CHR 0xBD, CHR 0xD0, CHR 0xB0] @ '' '' @ [CHR 0xD1, CHR 0x81, CHR 0xD0, CHR 0xB5,
     CHR 0xD0, CHR 0xB3, CHR 0xD0, CHR 0xBE, CHR 0xD0, CHR 0xB4, CHR 0xD0, CHR 0xBD,
     CHR 0xD1, CHR 0x8F] @ '':''"

definition parse_assignment_id :: "string list \<Rightarrow> string option" where
  "parse_assignment_id args = (case args of [] \<Rightarrow> None | a # _ \<Rightarrow> Some a)"

definition result_handler ::
  "TaskStatus \<Rightarrow> string \<Rightarrow> string \<Rightarrow> storage \<Rightarrow> string \<Rightarrow> string \<Rightarrow> int option \<Rightarrow> string list
     \<Rightarrow> error + string option \<times> storage" where
  \<comment> \<open>the common body of \<^verbatim>\<open>done\<close> and \<^verbatim>\<open>fail\<close>\<close>
  "result_handler st usage recorded s uuid now user args =
     (case user of
        None \<Rightarrow> Inr (None, s)
      | Some uid \<Rightarrow>
          (case parse_assignment_id args of
             None \<Rightarrow> Inr (Some usage, s)
           | Some aid \<Rightarrow>
               if aid = [] then Inr (Some usage, s)
               else (case fetch_assignment s aid of
                       None \<Rightarrow> Inr (Some reply_not_found, s)
                     | Some a \<Rightarrow>
                         if user_id a \<noteq> uid then Inr (Some reply_not_found, s)
                         else (case record_result s uuid now uid aid st None of
                                 Inl e \<Rightarrow> Inl e
                               | Inr (ev, s') \<Rightarrow> Inr (Some recorded, s')))))"

definition done_handler ::
  "storage \<Rightarrow> string \<Rightarrow> string \<Rightarrow> int option \<Rightarrow> string list \<Rightarrow> error + string option \<times> storage" where
  "done_handler = result_handler DONE reply_usage_done reply_recorded_done"

definition fail_handler ::
  "storage \<Rightarrow> string \<Rightarrow> string \<Rightarrow> int option \<Rightarrow> string list \<Rightarrow> error + string option \<times> storage" where
  "fail_handler = result_handler FAILED reply_usage_fail reply_recorded_failed"

definition skill_value :: "Skill \<Rightarrow> string" where
  "skill_value k =
     (case k of BODY \<Rightarrow> ''body'' | CAPITAL \<Rightarrow> ''capital'' | PRODUCTIVITY \<Rightarrow> ''productivity''
      | GAME_THINKING \<Rightarrow> ''game_thinking'' | PSYCHE \<Rightarrow> ''psyche'' | LANGUAGE \<Rightarrow> ''language'')"

fun join_lines :: "string list \<Rightarrow> string" where
  "join_lines [] = []"
| "join_lines [l] = l"
| "join_lines (l # ls) = l @ [CHR 0x0A] @ join_lines ls"

definition day_reply :: "TaskAssignment list \<Rightarrow> string" where
  "day_reply items =
     join_lines (reply_day_header #
       map (\<lambda>item. assignment_id item @ '' | '' @ skill_value (skill item) @ '' | '' @ title item) items)"

definition day_handler ::
  "'g pylib \<Rightarrow> storage \<Rightarrow> date \<Rightarrow> int option \<Rightarrow> error + string option \<times> storage" where
  \<comment> \<open>the date is \<^verbatim>\<open>_today(timezone)\<close> at the call\<close>
  "day_handler L s today user =
     (case user of
        None \<Rightarrow> Inr (None, s)
      | Some uid \<Rightarrow>
          (case list_assignments_for_date s uid today of
             Inl e \<Rightarrow> Inl e
           | Inr items \<Rightarrow>
               if items = []
               then (case generate_daily_plan L s uid today DEFAULT_RULES of
                       Inl e \<Rightarrow> Inl e
                     | Inr (plan, s') \<Rightarrow> Inr (Some (day_reply (assignments plan)), s'))
               else Inr (Some (day_reply items), s)))"

section \<open>The status of an assignment and the event log\<close>

definition last_event_status :: "TaskEvent list \<Rightarrow> string \<Rightarrow> TaskStatus" where
  \<comment> \<open>the status of the most recently recorded event for the id, \<open>ASSIGNED\<close> without one\<close>
  "last_event_status evs aid =
     (case rev (filter (\<lambda>e. e_assignment_id e = aid) evs) of [] \<Rightarrow> ASSIGNED | e # _ \<Rightarrow> e_status e)"

definition status_inv :: "storage \<Rightarrow> bool" where
  "status_inv s =
     (\<forall>a \<in> set (task_assignments s). status a = last_event_status (task_events s) (assignment_id a))"

definition events_known :: "storage \<Rightarrow> bool" where
  \<comment> \<open>every logged event is for a stored assignment\<close>
  "events_known s =
     (\<forall>e \<in> set (task_events s). e_assignment_id e \<in> set (map assignment_id (task_assignments s)))"

text \<open>
  The databases that the bot reaches from one without assignments and events, by its
  commands \<^verbatim>\<open>/start\<close>, \<^verbatim>\<open>/day\<close>, \<^verbatim>\<open>/done\<close>, \<^verbatim>\<open>/fail\<close>, by \<open>seed_templates\<close> at start-up and by
  \<open>generate_daily_plan\<close> for any user, date and rules.
\<close>

inductive reachable :: "'g pylib \<Rightarrow> storage \<Rightarrow> bool" for L :: "'g pylib" where
  init: "task_assignments s = [] \<Longrightarrow> task_events s = [] \<Longrightarrow> reachable L s"
| start_cmd: "reachable L s \<Longrightarrow> ensure_user s uid now = Inr s' \<Longrightarrow> reachable L s'"
| seed: "reachable L s \<Longrightarrow> seed_templates s = Inr s' \<Longrightarrow> reachable L s'"
| plan: "reachable L s \<Longrightarrow> generate_daily_plan L s uid dv rules = Inr (p, s') \<Longrightarrow> reachable L s'"
| day_cmd: "reachable L s \<Longrightarrow> day_handler L s today user = Inr (r, s') \<Longrightarrow> reachable L s'"
| done_cmd: "reachable L s \<Longrightarrow> done_handler s uuid now user args = Inr (r, s') \<Longrightarrow> reachable L s'"
| fail_cmd: "reachable L s \<Longrightarrow> fail_handler s uuid now user args = Inr (r, s') \<Longrightarrow> reachable L s'"

section \<open>Concrete inputs\<close>

definition empty_storage :: storage where
  \<comment> \<open>the database right after \<^verbatim>\<open>_init_db\<close>\<close>
  "empty_storage = \<lparr>users = [], task_templates = [], task_assignments = [], task_events = []\<rparr>"

definition day_42 :: date where
  "day_42 = \<lparr>year = 2024, month = 3, day = 4\<rparr>"

definition march_1 :: date where
  "march_1 = \<lparr>year = 2024, month = 3, day = 1\<rparr>"

definition march_10 :: date where
  "march_10 = \<lparr>year = 2024, month = 3, day = 10\<rparr>"

definition march_30 :: date where
  "march_30 = \<lparr>year = 2024, month = 3, day = 30\<rparr>"

definition stagnant_week :: WeekSummary where
  \<comment> \<open>what \<open>weekly_summary\<close> returns for a week with ten assignments, none done, none failed\<close>
  "stagnant_week =
     \<lparr>week_start = day_42,
      week_end = march_10,
      w_completion_rate = Finite 0, overload_flag = False, stagnation_flag = True,
      w_critical_failures = 0\<rparr>"

definition assignments_in_window :: "storage \<Rightarrow> int \<Rightarrow> date \<Rightarrow> date \<Rightarrow> TaskAssignment list" where
  \<comment> \<open>the rows of one user dated from the first day to the second, both included\<close>
  "assignments_in_window s uid first_day last_day =
     filter (\<lambda>a. user_id a = uid \<and> date_le first_day (date_assigned a) \<and> date_le (date_assigned a) last_day)
       (task_assignments s)"

definition sample_row :: "string \<Rightarrow> int \<Rightarrow> nat \<Rightarrow> TaskStatus \<Rightarrow> TaskAssignment" where
  \<comment> \<open>a row of user \<open>uid\<close> for the template \<^verbatim>\<open>body-01\<close>, dated the given day of March 2024\<close>
  "sample_row aid uid dd st =
     \<lparr>assignment_id = aid, user_id = uid, template_id = ''body-01'', title = title_body,
      skill = BODY, date_assigned = \<lparr>year = 2024, month = 3, day = dd\<rparr>, status = st\<rparr>"

definition week_storage :: storage where
  \<comment> \<open>user 42 has a done and a failed task in the week of 2024-03-04 and a task the Monday after\<close>
  "week_storage =
     empty_storage\<lparr>task_assignments :=
       [sample_row ''00000000000000a1'' 42 4 DONE,
        sample_row ''00000000000000a2'' 42 10 FAILED,
        sample_row ''00000000000000a3'' 42 11 DONE,
        sample_row ''00000000000000a4'' 7 5 DONE]\<rparr>"


definition stray_event :: TaskEvent where
  "stray_event =
     \<lparr>event_id = ''6f1c2a9e-0000-4000-8000-000000000001'', e_assignment_id = ''00000000000000ff'',
      e_user_id = 42, e_status = DONE, created_at = ''2024-03-04T09:00:00'', e_note = None\<rparr>"

definition toy_lib :: "int pylib" where
  \<comment> \<open>a small library instance that meets \<open>lib_ok\<close>, to run the service on concrete inputs;
     its digest is a multiplicative hash, not SHA-256, and its generator state is a number
     that each draw divides\<close>
  "toy_lib =
     \<lparr>sha256 = (\<lambda>b. (foldl (\<lambda>h c. h * 257 + of_char c + 1) 0 b
                      * 0x9E3779B97F4A7C15F39CC0605CEDC8341082276BF3A27251F86C6A11D0C18E95) mod 2 ^ 256),
      Random = (\<lambda>seed. seed),
      randint = (\<lambda>g a b. (a + g mod (b - a + 1), g div (b - a + 1))),
      sample = (\<lambda>g n k. (take k (rotate (nat (g mod int n)) [0..<n]), g div (int n + 1)))\<rparr>"

definition plan_row :: "'g pylib \<Rightarrow> int \<Rightarrow> date \<Rightarrow> TaskTemplate \<Rightarrow> TaskAssignment" where
  \<comment> \<open>the assignment that \<open>make_assignment\<close> builds when the user id prints\<close>
  "plan_row L uid dv template =
     \<lparr>assignment_id =
        take 16 (hexdigest L (str_int uid @ '':'' @ isoformat dv @ '':'' @ t_template_id template)),
      user_id = uid,
      template_id = t_template_id template,
      title = t_title template,
      skill = t_skill template,
      date_assigned = dv,
      status = ASSIGNED\<rparr>"

definition seeded_storage :: storage where
  \<comment> \<open>the database after \<open>seed_templates\<close> at start-up\<close>
  "seeded_storage = empty_storage\<lparr>task_templates := DEFAULT_TEMPLATES\<rparr>"

definition row_capital :: TaskAssignment where
  "row_capital =
     \<lparr>assignment_id = ''69b5b95f2415e179'', user_id = 42, template_id = ''capital-01'',
      title = title_capital, skill = CAPITAL, date_assigned = day_42, status = ASSIGNED\<rparr>"

definition row_productivity :: TaskAssignment where
  "row_productivity =
     \<lparr>assignment_id = ''acceb96aed0a8273'', user_id = 42, template_id = ''productivity-01'',
      title = title_productivity, skill = PRODUCTIVITY, date_assigned = day_42, status = ASSIGNED\<rparr>"

definition row_body :: TaskAssignment where
  "row_body =
     \<lparr>assignment_id = ''cb94366633ea492d'', user_id = 42, template_id = ''body-01'',
      title = title_body, skill = BODY, date_assigned = day_42, status = ASSIGNED\<rparr>"

definition plan_42 :: DailyPlan where
  \<comment> \<open>the plan of user 42 for 2024-03-04 under the default rules, with \<open>toy_lib\<close>\<close>
  "plan_42 = \<lparr>plan_date_value = day_42, assignments = [row_capital, row_productivity]\<rparr>"

definition storage_42 :: storage where
  "storage_42 = seeded_storage\<lparr>task_assignments := [row_capital, row_productivity]\<rparr>"

definition body_rules :: LevelRules where
  \<comment> \<open>valid rules that ask for three tasks a day of the one skill \<open>BODY\<close>\<close>
  "body_rules = \<lparr>level = 1, active_skills = [BODY], max_daily_tasks = 3, min_daily_tasks = 3\<rparr>"

definition ten_rows_storage :: storage where
  \<comment> \<open>user 42 has ten open tasks on 2024-03-05, one on 2024-03-11, and user 7 has a done one\<close>
  "ten_rows_storage =
     empty_storage\<lparr>task_assignments :=
       map (\<lambda>i. sample_row (str_nat i) 42 5 ASSIGNED) [0..<10]
       @ [sample_row ''00000000000000a3'' 42 11 DONE, sample_row ''00000000000000a4'' 7 5 DONE]\<rparr>"

definition failed_month_storage :: storage where
  \<comment> \<open>user 42 has sixteen failed tasks on 2024-03-05; the row of 2024-03-31 is outside the
     thirty days from 2024-03-01\<close>
  "failed_month_storage =
     empty_storage\<lparr>task_assignments :=
       map (\<lambda>i. sample_row (str_nat i) 42 5 FAILED) [0..<16]
       @ [sample_row ''00000000000000a3'' 42 31 DONE, sample_row ''00000000000000a4'' 7 5 DONE]\<rparr>"

definition good_month_storage :: storage where
  \<comment> \<open>user 42 has seventeen done and three failed tasks in March 2024\<close>
  "good_month_storage =
     empty_storage\<lparr>task_assignments :=
       map (\<lambda>i. sample_row (str_nat i) 42 5 DONE) [0..<17]
       @ map (\<lambda>i. sample_row (CHR ''f'' # str_nat i) 42 20 FAILED) [0..<3]
       @ [sample_row ''00000000000000a4'' 7 5 FAILED]\<rparr>"

definition failed_month :: MonthSummary where
  "failed_month =
     \<lparr>month_start = march_1,
      month_end = march_30,
      m_completion_rate = Finite 0, closed_weeks = 4, m_critical_failures = 16,
      level_change = ''hold''\<rparr>"

definition good_month :: MonthSummary where
  \<comment> \<open>the completion rate is the float \<^verbatim>\<open>0.85\<close>\<close>
  "good_month =
     \<lparr>month_start = march_1,
      month_end = march_30,
      m_completion_rate = Finite (7656119366529843 / 9007199254740992), closed_weeks = 4,
      m_critical_failures = 0, level_change = ''promote:2''\<rparr>"


section \<open>Verified properties\<close>

subsection \<open>Zero-padded decimals compare like the numbers\<close>

lemma length_zero_pad: "length (zero_pad w n) = w"
  by (induction w arbitrary: n) auto

lemma of_char_digit: "d < 10 \<Longrightarrow> (of_char (digit_char d) :: nat) = 48 + d"
  by (simp add: digit_char_def)

lemma digit_char_eq_iff: "a < 10 \<Longrightarrow> b < 10 \<Longrightarrow> digit_char a = digit_char b \<longleftrightarrow> a = b"
  by (metis of_char_digit add_left_cancel)

lemma digit_char_less_iff: "a < 10 \<Longrightarrow> b < 10 \<Longrightarrow> digit_char a < digit_char b \<longleftrightarrow> a < b"
  by (simp add: less_char_def of_char_digit)

lemma zero_pad_mod: "zero_pad w (n mod 10 ^ w) = zero_pad w n"
proof (induction w arbitrary: n)
  case 0
  show ?case by simp
next
  case (Suc w)
  have "(n mod 10 ^ Suc w) div 10 = (n div 10) mod 10 ^ w"
    by (simp add: div_mult2_eq mod_mult2_eq)
  moreover have "(n mod 10 ^ Suc w) mod 10 = n mod 10"
    by (simp add: mod_mod_cancel)
  ultimately show ?case using Suc.IH [of "n div 10"] by simp
qed

lemma zero_pad_front: "zero_pad (Suc w) n = digit_char (n div 10 ^ w mod 10) # zero_pad w n"
proof (induction w arbitrary: n)
  case 0
  show ?case by simp
next
  case (Suc w)
  have "zero_pad (Suc (Suc w)) n = zero_pad (Suc w) (n div 10) @ [digit_char (n mod 10)]"
    by simp
  also have "\<dots> = (digit_char (n div 10 div 10 ^ w mod 10) # zero_pad w (n div 10)) @ [digit_char (n mod 10)]"
    using Suc.IH [of "n div 10"] by simp
  also have "\<dots> = digit_char (n div 10 ^ Suc w mod 10) # zero_pad (Suc w) n"
    by (simp add: div_mult2_eq)
  finally show ?case .
qed

lemma zero_pad_less_iff:
  "n < 10 ^ w \<Longrightarrow> m < 10 ^ w \<Longrightarrow> zero_pad w n < zero_pad w m \<longleftrightarrow> n < m"
proof (induction w arbitrary: n m)
  case 0
  then show ?case by simp
next
  case (Suc w)
  define a where "a = n div 10 ^ w"
  define b where "b = m div 10 ^ w"
  define r where "r = n mod 10 ^ w"
  define t where "t = m mod 10 ^ w"
  have n: "n = a * 10 ^ w + r" and m: "m = b * 10 ^ w + t"
    by (simp_all add: a_def b_def r_def t_def div_mult_mod_eq)
  have r: "r < 10 ^ w" and t: "t < 10 ^ w"
    by (simp_all add: r_def t_def)
  have a: "a < 10" and b: "b < 10"
    using Suc.prems by (simp_all add: a_def b_def less_mult_imp_div_less mult.commute)
  have pad: "zero_pad (Suc w) n = digit_char a # zero_pad w r"
    "zero_pad (Suc w) m = digit_char b # zero_pad w t"
    using a b by (simp_all add: zero_pad_front zero_pad_mod a_def b_def r_def t_def del: zero_pad.simps)
  have ih: "zero_pad w r < zero_pad w t \<longleftrightarrow> r < t"
    using Suc.IH [OF r t] .
  have "n < m \<longleftrightarrow> a < b \<or> (a = b \<and> r < t)"
  proof (cases "a < b")
    case True
    then have "a + 1 \<le> b" by simp
    then have "(a + 1) * 10 ^ w \<le> b * 10 ^ w" by (rule mult_le_mono1)
    then show ?thesis using True r n m by simp
  next
    case False
    show ?thesis
    proof (cases "a = b")
      case True
      then show ?thesis using n m by simp
    next
      case ne: False
      with False have "b + 1 \<le> a" by simp
      then have "(b + 1) * 10 ^ w \<le> a * 10 ^ w" by (rule mult_le_mono1)
      then show ?thesis using False ne t n m by simp
    qed
  qed
  then show ?case
    using pad ih a b by (simp add: digit_char_less_iff digit_char_eq_iff del: zero_pad.simps)
qed

lemma zero_pad_eq_iff:
  "n < 10 ^ w \<Longrightarrow> m < 10 ^ w \<Longrightarrow> zero_pad w n = zero_pad w m \<longleftrightarrow> n = m"
  by (metis zero_pad_less_iff less_irrefl linorder_neqE_nat)

subsection \<open>Rounding keeps the unit interval\<close>







subsection \<open>ISO dates compare like the dates\<close>

lemma append_less_same_length:
  fixes xs ys :: string
  shows "length xs = length ys \<Longrightarrow> (xs @ us < ys @ vs) = (xs < ys \<or> xs = ys \<and> us < vs)"
  by (induction xs ys rule: list_induct2) auto

lemma valid_date_bounds:
  "valid_date d \<Longrightarrow> year d < 10 ^ 4 \<and> month d < 10 ^ 2 \<and> day d < 10 ^ 2"
  by (auto simp: valid_date_def days_in_month_def split: if_splits)

lemma isoformat_less_iff:
  assumes "valid_date a" "valid_date b"
  shows "isoformat a < isoformat b \<longleftrightarrow> (year a, month a, day a) < (year b, month b, day b)"
proof -
  note A = valid_date_bounds [OF assms(1)]
  note B = valid_date_bounds [OF assms(2)]
  have y: "zero_pad 4 (year a) < zero_pad 4 (year b) \<longleftrightarrow> year a < year b"
    "zero_pad 4 (year a) = zero_pad 4 (year b) \<longleftrightarrow> year a = year b"
    using A B by (simp_all add: zero_pad_less_iff zero_pad_eq_iff del: zero_pad.simps)
  have m: "zero_pad 2 (month a) < zero_pad 2 (month b) \<longleftrightarrow> month a < month b"
    "zero_pad 2 (month a) = zero_pad 2 (month b) \<longleftrightarrow> month a = month b"
    using A B by (simp_all add: zero_pad_less_iff zero_pad_eq_iff del: zero_pad.simps)
  have d: "zero_pad 2 (day a) < zero_pad 2 (day b) \<longleftrightarrow> day a < day b"
    using A B by (simp_all add: zero_pad_less_iff del: zero_pad.simps)
  have "isoformat a < isoformat b \<longleftrightarrow>
      zero_pad 4 (year a) < zero_pad 4 (year b) \<or> zero_pad 4 (year a) = zero_pad 4 (year b) \<and>
       (zero_pad 2 (month a) < zero_pad 2 (month b) \<or> zero_pad 2 (month a) = zero_pad 2 (month b) \<and>
         zero_pad 2 (day a) < zero_pad 2 (day b))"
    unfolding isoformat_def
    by (simp add: append_less_same_length length_zero_pad del: zero_pad.simps)
  then show ?thesis
    unfolding y m d by (auto simp: less_prod_def)
qed

lemma isoformat_eq_iff:
  assumes "valid_date a" "valid_date b"
  shows "isoformat a = isoformat b \<longleftrightarrow> a = b"
proof
  assume e: "isoformat a = isoformat b"
  have "\<not> (year a, month a, day a) < (year b, month b, day b)"
    "\<not> (year b, month b, day b) < (year a, month a, day a)"
    using isoformat_less_iff [OF assms] isoformat_less_iff [OF assms(2) assms(1)] e by simp_all
  then have "(year a, month a, day a) = (year b, month b, day b)"
    by (meson linorder_neqE)
  then show "a = b" by simp
qed simp

lemma isoformat_le_iff:
  assumes "valid_date a" "valid_date b"
  shows "isoformat a \<le> isoformat b \<longleftrightarrow> date_le a b"
proof -
  have "isoformat a \<le> isoformat b \<longleftrightarrow> isoformat a < isoformat b \<or> isoformat a = isoformat b"
    by (rule le_less)
  also have "\<dots> \<longleftrightarrow> (year a, month a, day a) < (year b, month b, day b) \<or> a = b"
    using isoformat_less_iff [OF assms] isoformat_eq_iff [OF assms] by simp
  also have "\<dots> \<longleftrightarrow> date_le a b"
    unfolding date_le_def le_less [of "(year a, month a, day a)"] by auto
  finally show ?thesis .
qed

lemma valid_next_day: "valid_date d \<Longrightarrow> year (next_day d) \<le> 9999 \<Longrightarrow> valid_date (next_day d)"
  by (auto simp: valid_date_def next_day_def days_in_month_def split: if_splits)

lemma valid_add_days: "valid_date d \<Longrightarrow> add_days d n = Inr e \<Longrightarrow> valid_date e"
proof (induction n arbitrary: d)
  case 0
  then show ?case by simp
next
  case (Suc n)
  from Suc.prems(2) have y: "year (next_day d) \<le> 9999" and r: "add_days (next_day d) n = Inr e"
    by (auto split: if_splits)
  from valid_next_day [OF Suc.prems(1) y] r show ?case
    by (rule Suc.IH)
qed

subsection \<open>Reading a range of assignments\<close>

lemma count_status_sort: "count_status st (sort_key f xs) = count_status st xs"
  by (simp add: count_status_def filter_sort)


lemma between_rows:
  assumes "sql_int uid" "valid_date a" "valid_date b"
    and "\<forall>r \<in> set (task_assignments s). valid_date (date_assigned r)"
  shows "\<exists>items. list_assignments_between s uid a b = Inr items
           \<and> length items = length (assignments_in_window s uid a b)
           \<and> count_status st items = count_status st (assignments_in_window s uid a b)"
proof -
  have "filter (\<lambda>r. user_id r = uid \<and> isoformat a \<le> isoformat (date_assigned r)
                           \<and> isoformat (date_assigned r) \<le> isoformat b) (task_assignments s)
        = assignments_in_window s uid a b"
    unfolding assignments_in_window_def
    using assms by (intro filter_cong) (auto simp: isoformat_le_iff)
  then show ?thesis
    using assms(1) by (simp add: list_assignments_between_def count_status_sort)
qed

subsection \<open>Recording an event\<close>

lemma find_None_set_status: "find (\<lambda>a. assignment_id a = aid) rows = None \<Longrightarrow> set_status aid st rows = rows"
  by (induction rows) (auto simp: set_status_def split: if_splits)

lemma record_result_appends:
  assumes "sql_int uid" "uuid \<notin> set (map event_id (task_events s))"
  shows "record_result s uuid now uid aid st nt =
           Inr (\<lparr>event_id = uuid, e_assignment_id = aid, e_user_id = uid, e_status = st,
                  created_at = now, e_note = nt\<rparr>,
                s\<lparr>task_events := task_events s @
                     [\<lparr>event_id = uuid, e_assignment_id = aid, e_user_id = uid, e_status = st,
                       created_at = now, e_note = nt\<rparr>],
                   task_assignments := set_status aid st (task_assignments s)\<rparr>)"
  using assms by (simp add: record_result_def record_event_def Let_def)

subsection \<open>The daily plan\<close>

lemma length_hexn: "length (hexn w v) = w"
  by (induction w arbitrary: v) auto

lemma hex_chars:
  "hex_char 0 = CHR ''0''" "hex_char 1 = CHR ''1''" "hex_char 2 = CHR ''2''" "hex_char 3 = CHR ''3''"
  "hex_char 4 = CHR ''4''" "hex_char 5 = CHR ''5''" "hex_char 6 = CHR ''6''" "hex_char 7 = CHR ''7''"
  "hex_char 8 = CHR ''8''" "hex_char 9 = CHR ''9''" "hex_char 10 = CHR ''a''" "hex_char 11 = CHR ''b''"
  "hex_char 12 = CHR ''c''" "hex_char 13 = CHR ''d''" "hex_char 14 = CHR ''e''" "hex_char 15 = CHR ''f''"
  by code_simp+

lemma hex_char_range: "d < 16 \<Longrightarrow> hex_char d \<in> set ''0123456789abcdef''"
proof -
  assume "d < 16"
  then have "d = 0 \<or> d = 1 \<or> d = 2 \<or> d = 3 \<or> d = 4 \<or> d = 5 \<or> d = 6 \<or> d = 7 \<or> d = 8
     \<or> d = 9 \<or> d = 10 \<or> d = 11 \<or> d = 12 \<or> d = 13 \<or> d = 14 \<or> d = 15"
    by arith
  then show ?thesis
    using hex_chars by (elim disjE) simp_all
qed

lemma set_hexn: "set (hexn w v) \<subseteq> set ''0123456789abcdef''"
proof (induction w arbitrary: v)
  case 0
  show ?case by simp
next
  case (Suc w)
  have "hex_char (v mod 16) \<in> set ''0123456789abcdef''" by (rule hex_char_range) simp
  with Suc [of "v div 16"] show ?case by auto
qed

lemma plan_row_id_shape:
  "length (assignment_id (plan_row L uid dv t)) = 16
   \<and> set (assignment_id (plan_row L uid dv t)) \<subseteq> set ''0123456789abcdef''"
proof -
  have "set (take 16 (hexn 64 v)) \<subseteq> set ''0123456789abcdef''" for v
    using set_take_subset [of 16 "hexn 64 v"] set_hexn [of 64 v] by blast
  then show ?thesis by (simp add: plan_row_def hexdigest_def length_hexn)
qed

lemma str_fits_small: "\<bar>i\<bar> < 10000 \<Longrightarrow> str_fits i"
proof -
  assume "\<bar>i\<bar> < 10000"
  then have a: "\<bar>i\<bar> < 10 ^ 4" by simp
  have b: "(10 :: int) ^ 4 \<le> 10 ^ 4300" by (rule power_increasing) simp_all
  from a b have "\<bar>i\<bar> < 10 ^ 4300" by (rule less_le_trans)
  then show ?thesis unfolding str_fits_def .
qed

lemma make_assignment_fits:
  "str_fits uid \<Longrightarrow> make_assignment L uid dv t = Inr (plan_row L uid dv t)"
  by (simp add: make_assignment_def assignment_id_of_def py_str_def plan_row_def)

lemma make_assignments_fits:
  "str_fits uid \<Longrightarrow> make_assignments L uid dv ts = Inr (map (plan_row L uid dv) ts)"
  by (induction ts) (simp_all add: make_assignment_fits)

lemma seeded_rng_Inr:
  "seeded_rng L uid dv = Inr g \<longleftrightarrow>
     str_fits uid \<and> g = Random L (int_of_hex (hexdigest L (str_int uid @ '':'' @ isoformat dv)))"
  by (auto simp: seeded_rng_def py_str_def)

lemma generate_daily_plan_Inr:
  assumes "generate_daily_plan L s uid dv rules = Inr (p, s')"
  shows "\<exists>count g1 selected g2.
           str_fits uid
         \<and> rng_randint L (Random L (int_of_hex (hexdigest L (str_int uid @ '':'' @ isoformat dv))))
              (min_daily_tasks rules) (max_daily_tasks rules) = Inr (count, g1)
         \<and> rng_sample L g1 (eligible_templates s rules)
              (min count (int (length (eligible_templates s rules)))) = Inr (selected, g2)
         \<and> assignments p = map (plan_row L uid dv) selected
         \<and> plan_date_value p = dv
         \<and> create_assignments s (assignments p) = Inr s'"
proof -
  from assms obtain g where g: "seeded_rng L uid dv = Inr g"
    by (auto simp: generate_daily_plan_def Let_def split: sum.splits)
  then have f: "str_fits uid"
    and gd: "g = Random L (int_of_hex (hexdigest L (str_int uid @ '':'' @ isoformat dv)))"
    by (simp_all add: seeded_rng_Inr)
  show ?thesis
    using assms g f unfolding gd [symmetric]
    by (auto simp: generate_daily_plan_def Let_def make_assignments_fits split: sum.splits prod.splits)
qed

lemma generate_daily_plan_run:
  assumes "str_fits uid"
    and "rng_randint L (Random L (int_of_hex (hexdigest L (str_int uid @ '':'' @ isoformat dv))))
              (min_daily_tasks rules) (max_daily_tasks rules) = Inr (count, g1)"
    and "rng_sample L g1 (eligible_templates s rules)
              (min count (int (length (eligible_templates s rules)))) = Inr (selected, g2)"
  shows "generate_daily_plan L s uid dv rules =
           (case create_assignments s (map (plan_row L uid dv) selected) of
              Inl e \<Rightarrow> Inl e
            | Inr s' \<Rightarrow> Inr (\<lparr>plan_date_value = dv, assignments = map (plan_row L uid dv) selected\<rparr>, s'))"
  using assms
  by (simp add: generate_daily_plan_def Let_def seeded_rng_def py_str_def make_assignments_fits)


lemma eligible_templates_cong:
  "list_templates s1 = list_templates s2 \<Longrightarrow> eligible_templates s1 rules = eligible_templates s2 rules"
  by (simp add: eligible_templates_def)

lemma eligible_templates_nonempty: "eligible_templates s rules \<noteq> []"
  by (simp add: eligible_templates_def Let_def DEFAULT_TEMPLATES_def)

subsection \<open>The fields of the week and month summaries\<close>

lemma weekly_summary_fields:
  assumes "sql_int uid" "valid_date wstart" "add_days wstart 6 = Inr wend"
    and "\<forall>r \<in> set (task_assignments s). valid_date (date_assigned r)"
    and "completion_rate (count_status DONE (assignments_in_window s uid wstart wend))
           (int (length (assignments_in_window s uid wstart wend))) = Inr c"
  shows "weekly_summary s uid wstart =
            Inr \<lparr>week_start = wstart, week_end = wend, w_completion_rate = c,
                 overload_flag = (21 < length (assignments_in_window s uid wstart wend)),
                 stagnation_flag = (count_status DONE (assignments_in_window s uid wstart wend) = 0
                                    \<and> 0 < length (assignments_in_window s uid wstart wend)),
                 w_critical_failures =
                   (if 5 \<le> count_status FAILED (assignments_in_window s uid wstart wend)
                    then count_status FAILED (assignments_in_window s uid wstart wend) else 0)\<rparr>"
proof -
  let ?W = "assignments_in_window s uid wstart wend"
  have ve: "valid_date wend" using assms(2,3) by (rule valid_add_days)
  obtain items where items: "list_assignments_between s uid wstart wend = Inr items"
    "length items = length ?W" "count_status DONE items = count_status DONE ?W"
    "count_status FAILED items = count_status FAILED ?W"
    using between_rows [OF assms(1,2) ve assms(4), of DONE] between_rows [OF assms(1,2) ve assms(4), of FAILED]
    by auto
  show ?thesis
    using assms(3,5) items by (simp add: weekly_summary_def Let_def DEFAULT_RULES_def)
qed

lemma weekly_summary_Inr:
  assumes "weekly_summary s uid wstart = Inr summary"
  shows "\<exists>wend items c. add_days wstart 6 = Inr wend
           \<and> list_assignments_between s uid wstart wend = Inr items
           \<and> completion_rate (count_status DONE items) (int (length items)) = Inr c
           \<and> summary = \<lparr>week_start = wstart, week_end = wend, w_completion_rate = c,
                 overload_flag = (21 < length items),
                 stagnation_flag = (count_status DONE items = 0 \<and> 0 < length items),
                 w_critical_failures =
                   (if 5 \<le> count_status FAILED items then count_status FAILED items else 0)\<rparr>"
  using assms
  by (auto simp: weekly_summary_def Let_def DEFAULT_RULES_def split: sum.splits)

lemma monthly_summary_fields:
  assumes "sql_int uid" "valid_date mstart" "add_days mstart 29 = Inr mend"
    and "\<forall>r \<in> set (task_assignments s). valid_date (date_assigned r)"
    and "completion_rate (count_status DONE (assignments_in_window s uid mstart mend))
           (int (length (assignments_in_window s uid mstart mend))) = Inr c"
    and "level_decision c 4
           (if 15 \<le> count_status FAILED (assignments_in_window s uid mstart mend)
            then count_status FAILED (assignments_in_window s uid mstart mend) else 0) lvl = Inr change"
  shows "monthly_summary s uid mstart lvl =
            Inr \<lparr>month_start = mstart, month_end = mend, m_completion_rate = c, closed_weeks = 4,
                 m_critical_failures =
                   (if 15 \<le> count_status FAILED (assignments_in_window s uid mstart mend)
                    then count_status FAILED (assignments_in_window s uid mstart mend) else 0),
                 level_change = change\<rparr>"
proof -
  let ?W = "assignments_in_window s uid mstart mend"
  have ve: "valid_date mend" using assms(2,3) by (rule valid_add_days)
  obtain items where items: "list_assignments_between s uid mstart mend = Inr items"
    "length items = length ?W" "count_status DONE items = count_status DONE ?W"
    "count_status FAILED items = count_status FAILED ?W"
    using between_rows [OF assms(1,2) ve assms(4), of DONE] between_rows [OF assms(1,2) ve assms(4), of FAILED]
    by auto
  show ?thesis
    using assms(3,5,6) items by (simp add: monthly_summary_def Let_def)
qed

lemma monthly_summary_Inr:
  assumes "monthly_summary s uid mstart lvl = Inr m"
  shows "closed_weeks m = 4
       \<and> (\<exists>mend items. add_days mstart 29 = Inr mend
             \<and> list_assignments_between s uid mstart mend = Inr items
             \<and> completion_rate (count_status DONE items) (int (length items)) = Inr (m_completion_rate m)
             \<and> m_critical_failures m =
                 (if 15 \<le> count_status FAILED items then count_status FAILED items else 0))
       \<and> (m_critical_failures m = 0 \<or> 15 \<le> m_critical_failures m)
       \<and> level_decision (m_completion_rate m) (closed_weeks m) (m_critical_failures m) lvl
            = Inr (level_change m)"
  using assms
  by (auto simp: monthly_summary_def Let_def split: sum.splits)

subsection \<open>Facts about the concrete inputs\<close>

lemma digit_chars:
  "digit_char 0 = CHR ''0''" "digit_char 1 = CHR ''1''" "digit_char 2 = CHR ''2''" "digit_char 3 = CHR ''3''"
  "digit_char 4 = CHR ''4''" "digit_char 5 = CHR ''5''" "digit_char 6 = CHR ''6''" "digit_char 7 = CHR ''7''"
  "digit_char 8 = CHR ''8''" "digit_char 9 = CHR ''9''"
  by code_simp+

lemma digit_char_Suc_0: "digit_char (Suc 0) = CHR ''1''"
  using digit_chars(2) by simp

lemma hex_char_Suc_0: "hex_char (Suc 0) = CHR ''1''"
  using hex_chars(2) by simp

lemma hexn_numeral: "hexn (numeral k) v = hexn (pred_numeral k) (v div 16) @ [hex_char (v mod 16)]"
  by (metis hexn.simps(2) numeral_eq_Suc)

lemma zero_pad_numeral: "zero_pad (numeral k) n = zero_pad (pred_numeral k) (n div 10) @ [digit_char (n mod 10)]"
  by (metis zero_pad.simps(2) numeral_eq_Suc)

lemma sample_rows_valid:
  "dd \<in> {1..31} \<Longrightarrow> valid_date (date_assigned (sample_row aid uid dd st))"
  by (simp add: sample_row_def valid_date_def days_in_month_def)

lemma march_window:
  "add_days march_1 29 = Inr march_30"
  "add_days day_42 6 = Inr march_10"
  "valid_date march_1"
  "valid_date day_42"
  "sql_int 42"
  by (code_simp+)

lemma sample_week_counts:
  "length (assignments_in_window ten_rows_storage 42 day_42
     march_10) = 10"
  "count_status DONE (assignments_in_window ten_rows_storage 42 day_42
     march_10) = 0"
  "count_status FAILED (assignments_in_window ten_rows_storage 42 day_42
     march_10) = 0"
  by (simp_all add: assignments_in_window_def ten_rows_storage_def empty_storage_def sample_row_def
      date_le_def count_status_def filter_map o_def day_42_def march_1_def march_10_def march_30_def)

lemma failed_month_counts:
  "length (assignments_in_window failed_month_storage 42 march_1
     march_30) = 16"
  "count_status DONE (assignments_in_window failed_month_storage 42 march_1
     march_30) = 0"
  "count_status FAILED (assignments_in_window failed_month_storage 42 march_1
     march_30) = 16"
  by (simp_all add: assignments_in_window_def failed_month_storage_def empty_storage_def sample_row_def
      date_le_def count_status_def filter_map o_def day_42_def march_1_def march_10_def march_30_def)

lemma good_month_counts:
  "length (assignments_in_window good_month_storage 42 march_1
     march_30) = 20"
  "count_status DONE (assignments_in_window good_month_storage 42 march_1
     march_30) = 17"
  "count_status FAILED (assignments_in_window good_month_storage 42 march_1
     march_30) = 3"
  by (simp_all add: assignments_in_window_def good_month_storage_def empty_storage_def sample_row_def
      date_le_def count_status_def filter_map o_def day_42_def march_1_def march_10_def march_30_def)

lemma sample_storages_valid:
  "\<forall>r \<in> set (task_assignments ten_rows_storage). valid_date (date_assigned r)"
  "\<forall>r \<in> set (task_assignments failed_month_storage). valid_date (date_assigned r)"
  "\<forall>r \<in> set (task_assignments good_month_storage). valid_date (date_assigned r)"
  "\<forall>r \<in> set (task_assignments week_storage). valid_date (date_assigned r)"
  by (auto simp: ten_rows_storage_def failed_month_storage_def good_month_storage_def week_storage_def
      empty_storage_def intro!: sample_rows_valid)

lemma sample_rates:
  "completion_rate 0 10 = Inr (Finite 0)"
  "completion_rate 0 16 = Inr (Finite 0)"
  "completion_rate 17 20 = Inr (Finite (7656119366529843 / 9007199254740992))"
  "completion_rate 1 2 = Inr (Finite (1 / 2))"
  by code_simp+

lemma str_int_2: "str_int 2 = ''2''"
  by (simp add: str_int_def str_nat.simps digit_chars)

lemma float_checks:
  "float_ge (Finite (7656119366529843 / 9007199254740992)) lit_0_8"
  "float_ge (Finite 1) lit_0_8"
  "\<not> float_ge (Finite 0) lit_0_8"
  "float_gt (Finite 1) lit_0_8"
  "\<not> float_gt lit_0_8 lit_0_8"
  "\<not> float_gt (Finite 0) lit_0_8"
  by (simp_all add: float_ge_def float_gt_def lit_0_8_def)

subsection \<open>Running the plan with the small library\<close>

lemma toy_lib_ok: "lib_ok toy_lib"
proof -
  have r: "a \<le> a + g mod (b - a + 1) \<and> a + g mod (b - a + 1) \<le> b" if "a \<le> b" for a b g :: int
  proof -
    from that have p: "0 < b - a + 1" by simp
    have lo: "0 \<le> g mod (b - a + 1)" using p by (rule pos_mod_sign)
    have "g mod (b - a + 1) < b - a + 1" using p by (rule pos_mod_bound)
    with lo show ?thesis by linarith
  qed
  have s: "length (take k (rotate m [0..<n])) = k \<and> distinct (take k (rotate m [0..<n]))
      \<and> (\<forall>i \<in> set (take k (rotate m [0..<n])). i < n)" if "k \<le> n" for k m n :: nat
  proof -
    have "set (take k (rotate m [0..<n])) \<subseteq> set (rotate m [0..<n])" by (rule set_take_subset)
    then have b: "\<forall>i \<in> set (take k (rotate m [0..<n])). i < n" by auto
    have "distinct (rotate m [0..<n])" unfolding distinct_rotate by (rule distinct_upt)
    then have d: "distinct (take k (rotate m [0..<n]))" by (rule distinct_take)
    have "length (rotate m [0..<n]) = n" by simp
    with that have l: "length (take k (rotate m [0..<n])) = k" by (simp only: length_take min_absorb2)
    from l d b show ?thesis by (intro conjI)
  qed
  have ri: "fst (randint toy_lib g a b) = a + g mod (b - a + 1)" for g a b
    by (simp add: toy_lib_def)
  have sa: "fst (sample toy_lib g n k) = take k (rotate (nat (g mod int n)) [0..<n])" for g n k
    by (simp add: toy_lib_def)
  have A: "a \<le> fst (randint toy_lib g a b) \<and> fst (randint toy_lib g a b) \<le> b" if "a \<le> b" for g a b
    unfolding ri using that by (rule r)
  have B: "length (fst (sample toy_lib g n k)) = k \<and> distinct (fst (sample toy_lib g n k))
      \<and> (\<forall>i \<in> set (fst (sample toy_lib g n k)). i < n)" if "k \<le> n" for g n k
    unfolding sa using that by (rule s)
  show ?thesis
    unfolding lib_ok_def
  proof (intro conjI allI impI)
    fix g a b :: int
    assume "a \<le> b"
    from A [OF this] show "a \<le> fst (randint toy_lib g a b)" "fst (randint toy_lib g a b) \<le> b"
      by simp_all
  next
    fix g :: int and n k :: nat
    assume "k \<le> n"
    from B [OF this] show "length (fst (sample toy_lib g n k)) = k"
      "distinct (fst (sample toy_lib g n k))" "\<forall>i \<in> set (fst (sample toy_lib g n k)). i < n"
      by simp_all
  qed
qed

lemma isoformat_day_42: "isoformat day_42 = ''2024-03-04''"
  by (simp add: isoformat_def day_42_def zero_pad_numeral digit_chars digit_char_Suc_0)

lemma str_int_42: "str_int 42 = ''42''"
  by (simp add: str_int_def str_nat.simps digit_chars digit_char_Suc_0)

lemma str_fits_42: "str_fits 42"
  by (rule str_fits_small) simp

lemma toy_digests:
  "hexdigest toy_lib ''42:2024-03-04''
     = ''2d2f18fd0a2331073a7ba0d9acff9170c12a2f3fb0bc0bf20e4df6f2a3e7c94e''"
  "hexdigest toy_lib ''42:2024-03-04:body-01''
     = ''cb94366633ea492d928638fb3d08b9396ab68478615e971e9685168c1417d6a4''"
  "hexdigest toy_lib ''42:2024-03-04:capital-01''
     = ''69b5b95f2415e179b3a9d2a8b0bf0cc90f830c457180086d7b2282e12e879953''"
  "hexdigest toy_lib ''42:2024-03-04:productivity-01''
     = ''acceb96aed0a8273c4e13bf36045d89ada07febd8c228e0690014015f589a574''"
  by (simp_all add: hexdigest_def toy_lib_def hexn_numeral hex_chars hex_char_Suc_0)

lemma toy_seed:
  "Random toy_lib (int_of_hex (hexdigest toy_lib (str_int 42 @ '':'' @ isoformat day_42)))
     = 20437292462138001169832779036701670825332866964022889112716884823512931879246"
proof -
  have "int_of_hex ''2d2f18fd0a2331073a7ba0d9acff9170c12a2f3fb0bc0bf20e4df6f2a3e7c94e''
      = 20437292462138001169832779036701670825332866964022889112716884823512931879246"
    by (simp add: int_of_hex_def hex_val_def)
  then show ?thesis
    by (simp add: str_int_42 isoformat_day_42 toy_digests(1)) (simp add: toy_lib_def)
qed

lemma toy_rows:
  "plan_row toy_lib 42 day_42 (DEFAULT_TEMPLATES ! 0) = row_body"
  "plan_row toy_lib 42 day_42 (DEFAULT_TEMPLATES ! 1) = row_capital"
  "plan_row toy_lib 42 day_42 (DEFAULT_TEMPLATES ! 2) = row_productivity"
  by (simp_all add: plan_row_def DEFAULT_TEMPLATES_def str_int_42 isoformat_day_42 toy_digests
      row_body_def row_capital_def row_productivity_def)

lemma eligible_default: "eligible_templates seeded_storage DEFAULT_RULES = DEFAULT_TEMPLATES"
  by (simp add: eligible_templates_def list_templates_def seeded_storage_def empty_storage_def
      DEFAULT_RULES_def DEFAULT_TEMPLATES_def)

lemma eligible_body: "eligible_templates seeded_storage body_rules = [DEFAULT_TEMPLATES ! 0]"
  by (simp add: eligible_templates_def list_templates_def seeded_storage_def empty_storage_def
      body_rules_def DEFAULT_TEMPLATES_def)

lemma length_default_templates: "length DEFAULT_TEMPLATES = 6"
  by (simp add: DEFAULT_TEMPLATES_def)

lemma upt_small: "[0..<6] = [0, 1, 2, 3, 4, 5]" "[0..<1] = [0]"
  by (code_simp+)

lemma toy_draws:
  "rng_randint toy_lib 20437292462138001169832779036701670825332866964022889112716884823512931879246 2 3
     = Inr (2, 10218646231069000584916389518350835412666433482011444556358442411756465939623)"
  "fst (sample toy_lib 10218646231069000584916389518350835412666433482011444556358442411756465939623 6 2)
     = [1, 2]"
  "rng_randint toy_lib 20437292462138001169832779036701670825332866964022889112716884823512931879246 3 3
     = Inr (3, 20437292462138001169832779036701670825332866964022889112716884823512931879246)"
  "fst (sample toy_lib 20437292462138001169832779036701670825332866964022889112716884823512931879246 1 1)
     = [0]"
  by (simp_all add: rng_randint_def toy_lib_def upt_small)

lemma insert_assignments_not_ValueError: "insert_assignments rows as \<noteq> Inl ValueError"
proof (induction as arbitrary: rows)
  case Nil
  show ?case by simp
next
  case (Cons a as)
  show ?case using Cons.IH [of "rows @ [a]"] by simp
qed

lemma create_assignments_not_ValueError: "create_assignments s as \<noteq> Inl ValueError"
proof (cases "insert_assignments (task_assignments s) as")
  case (Inl e)
  with insert_assignments_not_ValueError [of "task_assignments s" as] show ?thesis
    by (simp add: create_assignments_def)
next
  case (Inr rows)
  then show ?thesis by (simp add: create_assignments_def)
qed

lemma plan_42_draw:
  assumes "list_templates s = DEFAULT_TEMPLATES"
  shows "generate_daily_plan toy_lib s 42 day_42 DEFAULT_RULES
     = (case create_assignments s [row_capital, row_productivity] of
          Inl e \<Rightarrow> Inl e
        | Inr s' \<Rightarrow> Inr (plan_42, s'))"
proof -
  have "list_templates s = list_templates seeded_storage"
    using assms by (simp add: list_templates_def seeded_storage_def)
  from eligible_templates_cong [OF this, of DEFAULT_RULES]
  have e: "eligible_templates s DEFAULT_RULES = DEFAULT_TEMPLATES"
    by (simp only: eligible_default)
  have r: "rng_randint toy_lib
      (Random toy_lib (int_of_hex (hexdigest toy_lib (str_int 42 @ '':'' @ isoformat day_42))))
      (min_daily_tasks DEFAULT_RULES) (max_daily_tasks DEFAULT_RULES)
      = Inr (2, 10218646231069000584916389518350835412666433482011444556358442411756465939623)"
    unfolding toy_seed using toy_draws(1) by (simp add: DEFAULT_RULES_def)
  have s: "rng_sample toy_lib 10218646231069000584916389518350835412666433482011444556358442411756465939623
      (eligible_templates s DEFAULT_RULES)
      (min 2 (int (length (eligible_templates s DEFAULT_RULES))))
      = Inr ([DEFAULT_TEMPLATES ! 1, DEFAULT_TEMPLATES ! 2],
             snd (sample toy_lib 10218646231069000584916389518350835412666433482011444556358442411756465939623 6 2))"
    using toy_draws(2) by (simp add: e length_default_templates rng_sample_def)
  show ?thesis
    unfolding generate_daily_plan_run [OF str_fits_42 r s] list.map toy_rows plan_42_def ..
qed

lemma plan_42_run:
  "generate_daily_plan toy_lib seeded_storage 42 day_42 DEFAULT_RULES = Inr (plan_42, storage_42)"
proof -
  have t: "list_templates seeded_storage = DEFAULT_TEMPLATES"
    by (simp add: list_templates_def seeded_storage_def)
  have c: "create_assignments seeded_storage [row_capital, row_productivity] = Inr storage_42"
    by (simp add: create_assignments_def seeded_storage_def empty_storage_def storage_42_def
        row_capital_def row_productivity_def sql_int_def)
  show ?thesis unfolding plan_42_draw [OF t] c by simp
qed

lemma body_plan_run:
  "generate_daily_plan toy_lib seeded_storage 42 day_42 body_rules
     = Inr (\<lparr>plan_date_value = day_42, assignments = [row_body]\<rparr>,
            seeded_storage\<lparr>task_assignments := [row_body]\<rparr>)"
proof -
  have r: "rng_randint toy_lib
      (Random toy_lib (int_of_hex (hexdigest toy_lib (str_int 42 @ '':'' @ isoformat day_42))))
      (min_daily_tasks body_rules) (max_daily_tasks body_rules)
      = Inr (3, 20437292462138001169832779036701670825332866964022889112716884823512931879246)"
    unfolding toy_seed using toy_draws(3) by (simp add: body_rules_def)
  have s: "rng_sample toy_lib 20437292462138001169832779036701670825332866964022889112716884823512931879246
      (eligible_templates seeded_storage body_rules)
      (min 3 (int (length (eligible_templates seeded_storage body_rules))))
      = Inr ([DEFAULT_TEMPLATES ! 0],
             snd (sample toy_lib 20437292462138001169832779036701670825332866964022889112716884823512931879246 1 1))"
    using toy_draws(4) by (simp add: eligible_body rng_sample_def)
  have c: "create_assignments seeded_storage [row_body] = Inr (seeded_storage\<lparr>task_assignments := [row_body]\<rparr>)"
    by (simp add: create_assignments_def seeded_storage_def empty_storage_def row_body_def sql_int_def)
  show ?thesis
    unfolding generate_daily_plan_run [OF str_fits_42 r s] list.map toy_rows c
    by simp
qed

lemma seeded_storage_run: "seed_templates empty_storage = Inr seeded_storage"
  by (simp add: seed_templates_def DEFAULT_TEMPLATES_def upsert_template_def empty_storage_def
      seeded_storage_def sql_int_def)

subsection \<open>What the operations change\<close>

lemma insert_assignments_Inr:
  "insert_assignments rows as = Inr rows' \<Longrightarrow>
     rows' = rows @ as
     \<and> (\<forall>a \<in> set as. assignment_id a \<notin> set (map assignment_id rows) \<and> sql_int (user_id a))"
proof (induction as arbitrary: rows)
  case Nil
  then show ?case by simp
next
  case (Cons a as)
  from Cons.prems have a: "sql_int (user_id a)" "assignment_id a \<notin> set (map assignment_id rows)"
    and r: "insert_assignments (rows @ [a]) as = Inr rows'"
    by (simp_all split: if_splits)
  from Cons.IH [OF r] have "rows' = rows @ a # as"
    and "\<forall>b \<in> set as. assignment_id b \<notin> set (map assignment_id rows) \<and> sql_int (user_id b)"
    by simp_all
  with a show ?case by simp
qed

lemma insert_assignments_present:
  "a \<in> set as \<Longrightarrow> assignment_id a \<in> set (map assignment_id rows) \<Longrightarrow>
   \<forall>b \<in> set as. sql_int (user_id b) \<Longrightarrow> insert_assignments rows as = Inl IntegrityError"
proof (induction as arbitrary: rows)
  case Nil
  then show ?case by simp
next
  case (Cons b bs)
  show ?case
  proof (cases "assignment_id b \<in> set (map assignment_id rows)")
    case True
    with Cons.prems(3) show ?thesis by simp
  next
    case False
    with Cons.prems(1,2) have m: "a \<in> set bs" by auto
    from Cons.prems(2) have p: "assignment_id a \<in> set (map assignment_id (rows @ [b]))" by simp
    from Cons.prems(3) have q: "\<forall>c \<in> set bs. sql_int (user_id c)" by simp
    from Cons.IH [OF m p q] False Cons.prems(3) show ?thesis by simp
  qed
qed

lemma create_assignments_Inr:
  assumes "create_assignments s as = Inr s'"
  shows "s' = s\<lparr>task_assignments := task_assignments s @ as\<rparr>"
    and "\<forall>a \<in> set as. assignment_id a \<notin> set (map assignment_id (task_assignments s))
           \<and> sql_int (user_id a)"
proof -
  from assms obtain rows where r: "insert_assignments (task_assignments s) as = Inr rows"
    and s': "s' = s\<lparr>task_assignments := rows\<rparr>"
    by (auto simp: create_assignments_def split: sum.splits)
  from insert_assignments_Inr [OF r] s' show "s' = s\<lparr>task_assignments := task_assignments s @ as\<rparr>"
    and "\<forall>a \<in> set as. assignment_id a \<notin> set (map assignment_id (task_assignments s))
           \<and> sql_int (user_id a)"
    by simp_all
qed

lemma generate_daily_plan_stores:
  assumes "generate_daily_plan L s uid dv rules = Inr (p, s')"
  shows "s' = s\<lparr>task_assignments := task_assignments s @ assignments p\<rparr>"
    and "\<forall>a \<in> set (assignments p).
           assignment_id a \<notin> set (map assignment_id (task_assignments s)) \<and> sql_int uid
           \<and> status a = ASSIGNED \<and> user_id a = uid \<and> date_assigned a = dv"
proof -
  from generate_daily_plan_Inr [OF assms] obtain selected where
    p: "assignments p = map (plan_row L uid dv) selected"
    and c: "create_assignments s (assignments p) = Inr s'"
    by blast
  from create_assignments_Inr(1) [OF c]
  show "s' = s\<lparr>task_assignments := task_assignments s @ assignments p\<rparr>" .
  have "status a = ASSIGNED \<and> user_id a = uid \<and> date_assigned a = dv"
    if "a \<in> set (assignments p)" for a
    using that p by (auto simp: plan_row_def)
  with create_assignments_Inr(2) [OF c]
  show "\<forall>a \<in> set (assignments p).
           assignment_id a \<notin> set (map assignment_id (task_assignments s)) \<and> sql_int uid
           \<and> status a = ASSIGNED \<and> user_id a = uid \<and> date_assigned a = dv"
    by fastforce
qed

lemma seed_all_keeps:
  "seed_all s ts = Inr s' \<Longrightarrow>
     task_assignments s' = task_assignments s \<and> task_events s' = task_events s"
proof (induction ts arbitrary: s)
  case Nil
  then show ?case by simp
next
  case (Cons t ts)
  from Cons.prems obtain s1 where u: "upsert_template s t = Inr s1" and r: "seed_all s1 ts = Inr s'"
    by (auto split: sum.splits)
  from u have "task_assignments s1 = task_assignments s \<and> task_events s1 = task_events s"
    by (auto simp: upsert_template_def split: if_splits)
  with Cons.IH [OF r] show ?case by simp
qed

lemma last_event_status_append:
  "last_event_status (evs @ [ev]) aid
     = (if e_assignment_id ev = aid then e_status ev else last_event_status evs aid)"
  by (simp add: last_event_status_def)

lemma last_event_status_unknown:
  assumes "\<forall>e \<in> set evs. e_assignment_id e \<noteq> aid"
  shows "last_event_status evs aid = ASSIGNED"
proof -
  from assms have "filter (\<lambda>e. e_assignment_id e = aid) evs = []"
    by (simp add: filter_empty_conv)
  then show ?thesis by (simp add: last_event_status_def)
qed

lemma map_assignment_id_set_status:
  "map assignment_id (set_status aid st rows) = map assignment_id rows"
  by (induction rows) (simp_all add: set_status_def)

lemma record_event_keeps_inv:
  assumes "status_inv s" "events_known s" "record_event s ev = Inr s'"
    and "e_assignment_id ev \<in> set (map assignment_id (task_assignments s))"
  shows "status_inv s' \<and> events_known s'"
proof -
  from assms(3) have s': "s' = s\<lparr>task_events := task_events s @ [ev],
      task_assignments := set_status (e_assignment_id ev) (e_status ev) (task_assignments s)\<rparr>"
    by (simp add: record_event_def split: if_splits)
  have k: "events_known s'"
    using assms(2,4) unfolding events_known_def s'
    by (auto simp: map_assignment_id_set_status)
  have "status a' = last_event_status (task_events s') (assignment_id a')"
    if "a' \<in> set (task_assignments s')" for a'
  proof -
    from that obtain a where a: "a \<in> set (task_assignments s)"
      and a': "a' = (if assignment_id a = e_assignment_id ev then a\<lparr>status := e_status ev\<rparr> else a)"
      by (auto simp: s' set_status_def)
    from assms(1) a have "status a = last_event_status (task_events s) (assignment_id a)"
      by (simp add: status_inv_def)
    then show ?thesis by (simp add: a' s' last_event_status_append)
  qed
  then have "status_inv s'" by (simp add: status_inv_def)
  with k show ?thesis by simp
qed

lemma generate_daily_plan_keeps_inv:
  assumes "status_inv s" "events_known s" "generate_daily_plan L s uid dv rules = Inr (p, s')"
  shows "status_inv s' \<and> events_known s'"
proof -
  note s' = generate_daily_plan_stores(1) [OF assms(3)]
  note new = generate_daily_plan_stores(2) [OF assms(3)]
  have k: "events_known s'"
    using assms(2) unfolding events_known_def s' by auto
  have "status a = last_event_status (task_events s') (assignment_id a)"
    if "a \<in> set (task_assignments s')" for a
  proof (cases "a \<in> set (task_assignments s)")
    case True
    with assms(1) show ?thesis by (simp add: status_inv_def s')
  next
    case False
    with that have m: "a \<in> set (assignments p)" by (simp add: s')
    with new have f: "assignment_id a \<notin> set (map assignment_id (task_assignments s))"
      and st: "status a = ASSIGNED" by blast+
    have "e_assignment_id e \<noteq> assignment_id a" if "e \<in> set (task_events s)" for e
    proof
      assume q: "e_assignment_id e = assignment_id a"
      from assms(2) that have "e_assignment_id e \<in> set (map assignment_id (task_assignments s))"
        unfolding events_known_def by blast
      with f q show False by simp
    qed
    then have "\<forall>e \<in> set (task_events s). e_assignment_id e \<noteq> assignment_id a" by blast
    from last_event_status_unknown [OF this] st show ?thesis by (simp add: s')
  qed
  then have "status_inv s'" by (simp add: status_inv_def)
  with k show ?thesis by simp
qed

lemma fetch_assignment_Some:
  "fetch_assignment s aid = Some a \<Longrightarrow>
     a \<in> set (task_assignments s) \<and> assignment_id a = aid"
  by (auto simp: fetch_assignment_def find_Some_iff)

lemma result_handler_keeps_inv:
  assumes "status_inv s" "events_known s"
    and "result_handler st usage recorded s uuid now user args = Inr (r, s')"
  shows "status_inv s' \<and> events_known s'"
proof (cases "s' = s")
  case True
  with assms(1,2) show ?thesis by simp
next
  case False
  with assms(3) obtain uid aid a ev where f: "fetch_assignment s aid = Some a"
    and rr: "record_result s uuid now uid aid st None = Inr (ev, s')"
    by (auto simp: result_handler_def split: option.splits if_splits sum.splits)
  from rr have re: "record_event s \<lparr>event_id = uuid, e_assignment_id = aid, e_user_id = uid,
      e_status = st, created_at = now, e_note = None\<rparr> = Inr s'"
    by (auto simp: record_result_def Let_def split: sum.splits)
  from fetch_assignment_Some [OF f]
  have "aid \<in> set (map assignment_id (task_assignments s))" by force
  with record_event_keeps_inv [OF assms(1,2) re] show ?thesis by simp
qed

lemma day_handler_keeps_inv:
  assumes "status_inv s" "events_known s" "day_handler L s today user = Inr (r, s')"
  shows "status_inv s' \<and> events_known s'"
proof (cases "s' = s")
  case True
  with assms(1,2) show ?thesis by simp
next
  case False
  with assms(3) obtain uid p where "generate_daily_plan L s uid today DEFAULT_RULES = Inr (p, s')"
    by (auto simp: day_handler_def split: option.splits if_splits sum.splits)
  from generate_daily_plan_keeps_inv [OF assms(1,2) this] show ?thesis .
qed

lemma reachable_inv: "reachable L s \<Longrightarrow> status_inv s \<and> events_known s"
proof (induction rule: reachable.induct)
  case (init s)
  then show ?case by (simp add: status_inv_def events_known_def)
next
  case (start_cmd s uid now s')
  from start_cmd.hyps(2) have "task_assignments s' = task_assignments s \<and> task_events s' = task_events s"
    by (auto simp: ensure_user_def split: if_splits)
  with start_cmd.IH show ?case by (simp add: status_inv_def events_known_def)
next
  case (seed s s')
  from seed.hyps(2) have "task_assignments s' = task_assignments s \<and> task_events s' = task_events s"
    unfolding seed_templates_def by (rule seed_all_keeps)
  with seed.IH show ?case by (simp add: status_inv_def events_known_def)
next
  case (plan s uid dv rules p s')
  from plan.IH have "status_inv s" "events_known s" by simp_all
  then show ?case using plan.hyps(2) by (rule generate_daily_plan_keeps_inv)
next
  case (day_cmd s today user r s')
  from day_cmd.IH have "status_inv s" "events_known s" by simp_all
  then show ?case using day_cmd.hyps(2) by (rule day_handler_keeps_inv)
next
  case (done_cmd s uuid now user args r s')
  from done_cmd.IH have "status_inv s" "events_known s" by simp_all
  then show ?case using done_cmd.hyps(2) unfolding done_handler_def by (rule result_handler_keeps_inv)
next
  case (fail_cmd s uuid now user args r s')
  from fail_cmd.IH have "status_inv s" "events_known s" by simp_all
  then show ?case using fail_cmd.hyps(2) unfolding fail_handler_def by (rule result_handler_keeps_inv)
qed

subsection \<open>The plan is a function of user, date, rules and catalogue\<close>




subsection \<open>Assignment ids\<close>

lemma plan_rows:
  assumes "generate_daily_plan L s uid dv rules = Inr (p, s')" "a \<in> set (assignments p)"
  shows "\<exists>t. a = plan_row L uid dv t"
proof -
  from generate_daily_plan_Inr [OF assms(1)] obtain selected where
    "assignments p = map (plan_row L uid dv) selected" by blast
  with assms(2) show ?thesis by auto
qed

lemma plan_row_id:
  "assignment_id (plan_row L uid dv t)
     = take 16 (hexn 64 (sha256 L (str_int uid @ '':'' @ isoformat dv @ '':''
         @ template_id (plan_row L uid dv t))))"
  by (simp add: plan_row_def hexdigest_def)

text \<open>
  C2. Every assignment of a plan that \<^verbatim>\<open>generate_daily_plan\<close> returns for \<open>user_id\<close> and \<open>date\<close> has as id
  the first 16 characters of the lowercase hexadecimal SHA-256 digest of
  \<^verbatim>\<open>"{user_id}:{date}:{template_id}"\<close>, the date in ISO format: 16 characters, all of them in
  \<open>0123456789abcdef\<close>.  The id is a function of the triple: an assignment of the same template in any
  other plan generated for the same user and date, whatever the database and the rules, has the same id.
\<close>

theorem assignment_id_fingerprint:
  assumes "generate_daily_plan L s uid dv rules = Inr (p, s')" "a \<in> set (assignments p)"
  shows "assignment_id a
           = take 16 (hexn 64 (sha256 L (str_int uid @ '':'' @ isoformat dv @ '':'' @ template_id a)))
       \<and> assignment_id_of L uid dv (template_id a) = Inr (assignment_id a)
       \<and> length (assignment_id a) = 16
       \<and> set (assignment_id a) \<subseteq> set ''0123456789abcdef''
       \<and> user_id a = uid \<and> date_assigned a = dv
       \<and> (\<forall>s2 rules2 p2 s2' a2.
             generate_daily_plan L s2 uid dv rules2 = Inr (p2, s2') \<and> a2 \<in> set (assignments p2)
               \<and> template_id a2 = template_id a
             \<longrightarrow> assignment_id a2 = assignment_id a)"
proof -
  from plan_rows [OF assms] obtain t where a: "a = plan_row L uid dv t" ..
  from generate_daily_plan_Inr [OF assms(1)] have f: "str_fits uid" by blast
  have i: "assignment_id a
      = take 16 (hexn 64 (sha256 L (str_int uid @ '':'' @ isoformat dv @ '':'' @ template_id a)))"
    unfolding a by (rule plan_row_id)
  have o: "assignment_id_of L uid dv (template_id a) = Inr (assignment_id a)"
    using f i by (simp add: assignment_id_of_def py_str_def hexdigest_def)
  have u: "user_id a = uid \<and> date_assigned a = dv" by (simp add: a plan_row_def)
  have r: "assignment_id a2 = assignment_id a"
    if "generate_daily_plan L s2 uid dv rules2 = Inr (p2, s2')" "a2 \<in> set (assignments p2)"
      "template_id a2 = template_id a" for s2 rules2 p2 s2' a2
  proof -
    from plan_rows [OF that(1,2)] obtain t2 where "a2 = plan_row L uid dv t2" ..
    then have "assignment_id a2
        = take 16 (hexn 64 (sha256 L (str_int uid @ '':'' @ isoformat dv @ '':'' @ template_id a2)))"
      by (simp add: plan_row_id)
    with i that(3) show ?thesis by simp
  qed
  show ?thesis
    using i o u r plan_row_id_shape [of L uid dv t] unfolding a [symmetric] by blast
qed

theorem assignment_id_fingerprint_witness:
  "assignment_id row_capital
     = take 16 (hexn 64 (sha256 toy_lib (str_int 42 @ '':'' @ isoformat day_42 @ '':'' @ ''capital-01'')))
   \<and> assignment_id_of toy_lib 42 day_42 ''capital-01'' = Inr ''69b5b95f2415e179''
   \<and> length (assignment_id row_capital) = 16"
proof -
  have m: "row_capital \<in> set (assignments plan_42)" by (simp add: plan_42_def)
  have t: "template_id row_capital = ''capital-01''" "assignment_id row_capital = ''69b5b95f2415e179''"
    by (simp_all add: row_capital_def)
  show ?thesis
    using assignment_id_fingerprint [OF plan_42_run m] unfolding t by blast
qed

subsection \<open>An unknown assignment id\<close>

text \<open>
  Claim C3, as the code has it. The handlers of \<^verbatim>\<open>/done\<close> and \<^verbatim>\<open>/fail\<close> look the assignment up
  first: when the id names no stored assignment, or one of another user, they reply that
  the task was not found and leave the database, and so the event log, as it was.
  \<open>record_result\<close> itself makes no lookup: for an id that is not stored (a user id that
  SQLite can bind, an event id not yet used) it appends the event to the log, changes no
  assignment and returns the event.
\<close>

theorem unknown_assignment_not_found:
  assumes "aid \<noteq> []"
    and "fetch_assignment s aid = None \<or> (\<exists>a. fetch_assignment s aid = Some a \<and> user_id a \<noteq> uid)"
  shows "done_handler s uuid now (Some uid) (aid # rest) = Inr (Some reply_not_found, s)
       \<and> fail_handler s uuid now (Some uid) (aid # rest) = Inr (Some reply_not_found, s)
       \<and> (sql_int uid \<and> uuid \<notin> set (map event_id (task_events s)) \<and> fetch_assignment s aid = None \<longrightarrow>
            (\<exists>ev s'. record_result s uuid now uid aid st nt = Inr (ev, s')
               \<and> task_events s' = task_events s @ [ev] \<and> e_assignment_id ev = aid
               \<and> task_assignments s' = task_assignments s))"
proof -
  have h: "done_handler s uuid now (Some uid) (aid # rest) = Inr (Some reply_not_found, s)"
    "fail_handler s uuid now (Some uid) (aid # rest) = Inr (Some reply_not_found, s)"
    using assms
    by (auto simp: done_handler_def fail_handler_def result_handler_def parse_assignment_id_def)
  have r: "sql_int uid \<and> uuid \<notin> set (map event_id (task_events s)) \<and> fetch_assignment s aid = None \<longrightarrow>
            (\<exists>ev s'. record_result s uuid now uid aid st nt = Inr (ev, s')
               \<and> task_events s' = task_events s @ [ev] \<and> e_assignment_id ev = aid
               \<and> task_assignments s' = task_assignments s)"
    by (auto simp: record_result_appends fetch_assignment_def find_None_set_status)
  from h r show ?thesis by blast
qed

theorem unknown_assignment_not_found_witness:
  "fetch_assignment week_storage ''00000000000000ff'' = None
   \<and> done_handler week_storage ''6f1c2a9e-0000-4000-8000-000000000001'' ''2024-03-04T09:00:00'' (Some 42)
         [''00000000000000ff''] = Inr (Some reply_not_found, week_storage)
   \<and> fail_handler week_storage ''6f1c2a9e-0000-4000-8000-000000000001'' ''2024-03-04T09:00:00'' (Some 42)
         [''00000000000000a4''] = Inr (Some reply_not_found, week_storage)"
proof -
  have a: "''00000000000000ff'' \<noteq> ''''" "''00000000000000a4'' \<noteq> ''''" by simp_all
  have b: "fetch_assignment week_storage ''00000000000000ff'' = None" by code_simp
  have "fetch_assignment week_storage ''00000000000000a4'' = Some (sample_row ''00000000000000a4'' 7 5 DONE)"
    by code_simp
  moreover have "user_id (sample_row ''00000000000000a4'' 7 5 DONE) \<noteq> 42"
    by (simp add: sample_row_def)
  ultimately have c: "\<exists>a. fetch_assignment week_storage ''00000000000000a4'' = Some a \<and> user_id a \<noteq> 42"
    by blast
  show ?thesis
    using unknown_assignment_not_found [OF a(1), of week_storage 42] b
      unknown_assignment_not_found [OF a(2), of week_storage 42] c
    by blast
qed

text \<open>
  Called on the empty database with an id that names no assignment, \<open>record_result\<close> is no
  failure: it returns the event, and the event log holds it.
\<close>

theorem record_result_unknown_assignment:
  "fetch_assignment empty_storage ''00000000000000ff'' = None
   \<and> record_result empty_storage ''6f1c2a9e-0000-4000-8000-000000000001'' ''2024-03-04T09:00:00'' 42
         ''00000000000000ff'' DONE None
       = Inr (stray_event, empty_storage\<lparr>task_events := [stray_event]\<rparr>)"
  by code_simp

subsection \<open>The size of a plan\<close>

lemma valid_default_rules:
  "0 < min_daily_tasks DEFAULT_RULES \<and> min_daily_tasks DEFAULT_RULES \<le> max_daily_tasks DEFAULT_RULES"
  by (simp add: DEFAULT_RULES_def)

text \<open>
  C5. With a \<^verbatim>\<open>random\<close> module that keeps its contract (\<^verbatim>\<open>randint(a, b)\<close> lies in \<open>[a, b]\<close>, \<^verbatim>\<open>sample\<close> returns
  \<open>k\<close> distinct positions), a plan that \<^verbatim>\<open>generate_daily_plan\<close> returns has at most \<open>max_daily_tasks\<close>
  assignments, at most as many as there are eligible templates, and at least
  \<open>min(min_daily_tasks, |eligible templates|)\<close>.  It has at least \<open>min_daily_tasks\<close> assignments when
  that many templates are eligible; a plan is only returned when \<open>min_daily_tasks \<le> max_daily_tasks\<close>.
  The eligible templates are those of the catalogue whose skill is active, or the six default templates
  when there is none.
\<close>

theorem plan_size_bounds:
  assumes "lib_ok L" "generate_daily_plan L s uid dv rules = Inr (p, s')"
  shows "min_daily_tasks rules \<le> max_daily_tasks rules
       \<and> int (length (assignments p)) \<le> max_daily_tasks rules
       \<and> length (assignments p) \<le> length (eligible_templates s rules)
       \<and> min (min_daily_tasks rules) (int (length (eligible_templates s rules)))
            \<le> int (length (assignments p))
       \<and> (min_daily_tasks rules \<le> int (length (eligible_templates s rules))
            \<longrightarrow> min_daily_tasks rules \<le> int (length (assignments p)))"
proof -
  let ?T = "eligible_templates s rules"
  let ?g = "Random L (int_of_hex (hexdigest L (str_int uid @ '':'' @ isoformat dv)))"
  from generate_daily_plan_Inr [OF assms(2)] obtain count g1 selected g2 where
    r: "rng_randint L ?g (min_daily_tasks rules) (max_daily_tasks rules) = Inr (count, g1)"
    and sm: "rng_sample L g1 ?T (min count (int (length ?T))) = Inr (selected, g2)"
    and p: "assignments p = map (plan_row L uid dv) selected"
    by blast
  from r have le: "min_daily_tasks rules \<le> max_daily_tasks rules"
    and cnt: "count = fst (randint L ?g (min_daily_tasks rules) (max_daily_tasks rules))"
    by (auto simp: rng_randint_def split: if_splits)
  from assms(1) le cnt have c: "min_daily_tasks rules \<le> count" "count \<le> max_daily_tasks rules"
    by (auto simp: lib_ok_def)
  let ?k = "min count (int (length ?T))"
  from sm have k0: "0 \<le> ?k"
    and sel: "selected = map (\<lambda>i. ?T ! i) (fst (sample L g1 (length ?T) (nat ?k)))"
    by (auto simp: rng_sample_def split: if_splits)
  have "nat ?k \<le> length ?T" by simp
  with assms(1) have "length (fst (sample L g1 (length ?T) (nat ?k))) = nat ?k"
    by (auto simp: lib_ok_def)
  with sel p have len: "int (length (assignments p)) = ?k" using k0 by simp
  show ?thesis using len c le by auto
qed

theorem plan_size_bounds_witness:
  "int (length (assignments plan_42)) \<le> max_daily_tasks DEFAULT_RULES
   \<and> length (assignments plan_42) \<le> length (eligible_templates seeded_storage DEFAULT_RULES)
   \<and> min_daily_tasks DEFAULT_RULES \<le> int (length (assignments plan_42))
   \<and> length (assignments plan_42) = 2"
proof -
  have e: "min_daily_tasks DEFAULT_RULES \<le> int (length (eligible_templates seeded_storage DEFAULT_RULES))"
    unfolding eligible_default length_default_templates by (simp add: DEFAULT_RULES_def)
  have n: "length (assignments plan_42) = 2" by (simp add: plan_42_def)
  show ?thesis
    using plan_size_bounds [OF toy_lib_ok plan_42_run] e n by blast
qed

theorem plan_below_minimum:
  "0 < min_daily_tasks body_rules \<and> min_daily_tasks body_rules \<le> max_daily_tasks body_rules
   \<and> seed_templates empty_storage = Inr seeded_storage
   \<and> generate_daily_plan toy_lib seeded_storage 42 day_42 body_rules
       = Inr (\<lparr>plan_date_value = day_42, assignments = [row_body]\<rparr>,
              seeded_storage\<lparr>task_assignments := [row_body]\<rparr>)
   \<and> int (length [row_body]) < min_daily_tasks body_rules"
  unfolding body_plan_run seeded_storage_run by (simp add: body_rules_def)

subsection \<open>The level decision\<close>

text \<open>
  Claim C7. On every count of critical failures (a number that is not negative) and every
  level whose successor Python can print, \<open>level_decision\<close> returns \<^verbatim>\<open>hold\<close> whenever
  \<open>critical_failures > 0\<close>, whatever the other arguments are; otherwise it returns
  \<^verbatim>\<open>promote:<level+1>\<close> exactly when the completion rate is at least 0.8 and at least four
  weeks are closed, and \<^verbatim>\<open>hold\<close> in every remaining case, a completion rate below 0.5
  included. A month summary that \<open>monthly_summary\<close> returns has \<open>closed_weeks = 4\<close>, has for
  \<open>critical_failures\<close> the number of failed assignments among the rows read for the thirty
  days when that number is at least 15 and zero otherwise, and has for \<open>level_change\<close> what
  \<open>level_decision\<close> returns on its completion rate, these two numbers and the level.
\<close>

theorem level_decision_cases:
  assumes "0 \<le> cfailures" and "str_fits (lvl + 1)"
  shows "(0 < cfailures \<longrightarrow> level_decision completion cweeks cfailures lvl = Inr ''hold'')
       \<and> (\<not> 0 < cfailures \<longrightarrow>
            level_decision completion cweeks cfailures lvl =
              Inr (if float_ge completion lit_0_8 \<and> 4 \<le> cweeks
                   then ''promote:'' @ str_int (lvl + 1) else ''hold''))
       \<and> ''promote:'' @ str_int (lvl + 1) \<noteq> ''hold''
       \<and> (monthly_summary s uid mstart lvl = Inr m \<longrightarrow>
            closed_weeks m = 4
            \<and> (\<exists>mend items. add_days mstart 29 = Inr mend
                  \<and> list_assignments_between s uid mstart mend = Inr items
                  \<and> completion_rate (count_status DONE items) (int (length items))
                       = Inr (m_completion_rate m)
                  \<and> m_critical_failures m =
                      (if 15 \<le> count_status FAILED items then count_status FAILED items else 0))
            \<and> 0 \<le> m_critical_failures m
            \<and> level_decision (m_completion_rate m) 4 (m_critical_failures m) lvl
                 = Inr (level_change m))"
proof -
  have a: "0 < cfailures \<longrightarrow> level_decision completion cweeks cfailures lvl = Inr ''hold''"
    by (simp add: level_decision_def)
  have b: "\<not> 0 < cfailures \<longrightarrow>
            level_decision completion cweeks cfailures lvl =
              Inr (if float_ge completion lit_0_8 \<and> 4 \<le> cweeks
                   then ''promote:'' @ str_int (lvl + 1) else ''hold'')"
    using assms by (simp add: level_decision_def py_str_def)
  have c: "''promote:'' @ str_int (lvl + 1) \<noteq> ''hold''"
    by simp
  have d: "monthly_summary s uid mstart lvl = Inr m \<longrightarrow>
            closed_weeks m = 4
            \<and> (\<exists>mend items. add_days mstart 29 = Inr mend
                  \<and> list_assignments_between s uid mstart mend = Inr items
                  \<and> completion_rate (count_status DONE items) (int (length items))
                       = Inr (m_completion_rate m)
                  \<and> m_critical_failures m =
                      (if 15 \<le> count_status FAILED items then count_status FAILED items else 0))
            \<and> 0 \<le> m_critical_failures m
            \<and> level_decision (m_completion_rate m) 4 (m_critical_failures m) lvl
                 = Inr (level_change m)"
  proof
    assume "monthly_summary s uid mstart lvl = Inr m"
    from monthly_summary_Inr [OF this] show "closed_weeks m = 4
            \<and> (\<exists>mend items. add_days mstart 29 = Inr mend
                  \<and> list_assignments_between s uid mstart mend = Inr items
                  \<and> completion_rate (count_status DONE items) (int (length items))
                       = Inr (m_completion_rate m)
                  \<and> m_critical_failures m =
                      (if 15 \<le> count_status FAILED items then count_status FAILED items else 0))
            \<and> 0 \<le> m_critical_failures m
            \<and> level_decision (m_completion_rate m) 4 (m_critical_failures m) lvl
                 = Inr (level_change m)"
      by auto
  qed
  from a b c d show ?thesis by blast
qed

lemma failed_month_run:
  "monthly_summary failed_month_storage 42 march_1 1 = Inr failed_month"
proof -
  have "level_decision (Finite 0) 4 16 1 = Inr ''hold''"
    by (simp add: level_decision_def)
  then show ?thesis
    using monthly_summary_fields [OF march_window(5) march_window(3) march_window(1)
        sample_storages_valid(2), of "Finite 0" 1 "''hold''"]
    by (simp add: failed_month_counts sample_rates failed_month_def)
qed

lemma good_month_run:
  "monthly_summary good_month_storage 42 march_1 1 = Inr good_month"
proof -
  have "str_fits (1 + 1)" by (rule str_fits_small) simp
  then have "level_decision (Finite (7656119366529843 / 9007199254740992)) 4 0 1 = Inr ''promote:2''"
    using float_checks(1) str_int_2 by (simp add: level_decision_def py_str_def)
  then show ?thesis
    using monthly_summary_fields [OF march_window(5) march_window(3) march_window(1)
        sample_storages_valid(3), of "Finite (7656119366529843 / 9007199254740992)" 1 "''promote:2''"]
    by (simp add: good_month_counts sample_rates good_month_def)
qed

theorem level_decision_cases_witness:
  "level_decision (Finite (7656119366529843 / 9007199254740992)) 4 0 1 = Inr ''promote:2''
   \<and> level_decision (Finite 1) 4 16 1 = Inr ''hold''
   \<and> level_decision (Finite 0) 4 0 1 = Inr ''hold''
   \<and> monthly_summary failed_month_storage 42 march_1 1 = Inr failed_month
   \<and> m_critical_failures failed_month = 16
   \<and> level_decision (m_completion_rate failed_month) 4 (m_critical_failures failed_month) 1
        = Inr (level_change failed_month)
   \<and> monthly_summary good_month_storage 42 march_1 1 = Inr good_month
   \<and> closed_weeks good_month = 4
   \<and> level_decision (m_completion_rate good_month) 4 (m_critical_failures good_month) 1
        = Inr (level_change good_month)
   \<and> level_change good_month = ''promote:2''"
proof -
  have fits: "str_fits (1 + 1)" by (rule str_fits_small) simp
  have z: "(0 :: int) \<le> 0" "(0 :: int) \<le> 16" by simp_all
  have a: "level_decision (Finite (7656119366529843 / 9007199254740992)) 4 0 1 = Inr ''promote:2''"
    using level_decision_cases [OF z(1) fits, of "Finite (7656119366529843 / 9007199254740992)" 4]
      float_checks(1) str_int_2
    by simp
  have b: "level_decision (Finite 1) 4 16 1 = Inr ''hold''"
    using level_decision_cases [OF z(2) fits, of "Finite 1" 4] by simp
  have c: "level_decision (Finite 0) 4 0 1 = Inr ''hold''"
    using level_decision_cases [OF z(1) fits, of "Finite 0" 4] float_checks(3) by simp
  have d: "level_decision (m_completion_rate failed_month) 4 (m_critical_failures failed_month) 1
        = Inr (level_change failed_month)"
    using level_decision_cases [OF z(1) fits, of _ _ failed_month_storage 42
        "march_1" failed_month] failed_month_run
    by blast
  have e: "closed_weeks good_month = 4
     \<and> level_decision (m_completion_rate good_month) 4 (m_critical_failures good_month) 1
        = Inr (level_change good_month)"
    using level_decision_cases [OF z(1) fits, of _ _ good_month_storage 42
        "march_1" good_month] good_month_run
    by blast
  have f: "m_critical_failures failed_month = 16" "level_change good_month = ''promote:2''"
    by (simp_all add: failed_month_def good_month_def)
  from a b c d e f failed_month_run good_month_run show ?thesis by blast
qed

subsection \<open>The weekly adjustment\<close>

lemma notes_distinct: "distinct [note_stagnation, note_overload, note_increase, note_no_change]"
  by (simp add: note_stagnation_def note_overload_def note_increase_def note_no_change_def)

lemma ten_rows_run:
  "weekly_summary ten_rows_storage 42 day_42 = Inr stagnant_week"
  using weekly_summary_fields [OF march_window(5) march_window(4) march_window(2)
      sample_storages_valid(1), of "Finite 0"]
  by (simp add: sample_week_counts sample_rates stagnant_week_def)

text \<open>
  Claim C8, as the code has it. \<open>weekly_adjustment\<close> produces one note, chosen in a fixed
  order: the stagnation note when \<open>stagnation_flag\<close> is set, else the overload note when
  \<open>overload_flag\<close> is set, else the increase note when the completion rate is above 0.8,
  else the no-change note. The four notes are the Russian literals of the code, pairwise
  different, and the adjustment keeps the week's start. When the rows that
  \<open>weekly_summary\<close> reads for the week are ten and none of them is done, its summary has
  the stagnation flag and not the overload flag, and the note is the stagnation literal.
\<close>

theorem weekly_adjustment_precedence:
  "adjustment_note (weekly_adjustment summary) =
     (if stagnation_flag summary then note_stagnation
      else if overload_flag summary then note_overload
      else if float_gt (w_completion_rate summary) lit_0_8 then note_increase
      else note_no_change)
   \<and> distinct [note_stagnation, note_overload, note_increase, note_no_change]
   \<and> adj_week_start (weekly_adjustment summary) = week_start summary
   \<and> (weekly_summary s uid wstart = Inr week \<and> add_days wstart 6 = Inr wend
        \<and> list_assignments_between s uid wstart wend = Inr items
        \<and> length items = 10 \<and> count_status DONE items = 0 \<longrightarrow>
          stagnation_flag week \<and> \<not> overload_flag week
          \<and> adjustment_note (weekly_adjustment week) = note_stagnation)"
proof -
  have a: "adjustment_note (weekly_adjustment summary) =
     (if stagnation_flag summary then note_stagnation
      else if overload_flag summary then note_overload
      else if float_gt (w_completion_rate summary) lit_0_8 then note_increase
      else note_no_change)
   \<and> adj_week_start (weekly_adjustment summary) = week_start summary"
    by (simp add: weekly_adjustment_def)
  have b: "weekly_summary s uid wstart = Inr week \<and> add_days wstart 6 = Inr wend
        \<and> list_assignments_between s uid wstart wend = Inr items
        \<and> length items = 10 \<and> count_status DONE items = 0 \<longrightarrow>
          stagnation_flag week \<and> \<not> overload_flag week
          \<and> adjustment_note (weekly_adjustment week) = note_stagnation"
  proof
    assume h: "weekly_summary s uid wstart = Inr week \<and> add_days wstart 6 = Inr wend
        \<and> list_assignments_between s uid wstart wend = Inr items
        \<and> length items = 10 \<and> count_status DONE items = 0"
    from weekly_summary_Inr [of s uid wstart week] h
    have "stagnation_flag week \<and> \<not> overload_flag week" by auto
    then show "stagnation_flag week \<and> \<not> overload_flag week
          \<and> adjustment_note (weekly_adjustment week) = note_stagnation"
      by (simp add: weekly_adjustment_def)
  qed
  from a b notes_distinct show ?thesis by blast
qed

theorem weekly_adjustment_precedence_witness:
  "weekly_summary ten_rows_storage 42 day_42 = Inr stagnant_week
   \<and> adjustment_note (weekly_adjustment stagnant_week) = note_stagnation
   \<and> adjustment_note (weekly_adjustment (stagnant_week\<lparr>stagnation_flag := False, overload_flag := True\<rparr>)) = note_overload
   \<and> adjustment_note (weekly_adjustment (stagnant_week\<lparr>stagnation_flag := False, w_completion_rate := Finite 1\<rparr>)) = note_increase
   \<and> adjustment_note (weekly_adjustment (stagnant_week\<lparr>stagnation_flag := False, w_completion_rate := lit_0_8\<rparr>)) = note_no_change"
proof -
  let ?d = "day_42"
  let ?e = "march_10"
  obtain items where items: "list_assignments_between ten_rows_storage 42 ?d ?e = Inr items"
    "length items = 10" "count_status DONE items = 0"
    using between_rows [OF march_window(5) march_window(4) valid_add_days [OF march_window(4) march_window(2)]
        sample_storages_valid(1), of DONE]
    by (auto simp: sample_week_counts)
  have a: "adjustment_note (weekly_adjustment stagnant_week) = note_stagnation"
    using weekly_adjustment_precedence [of _ ten_rows_storage 42 ?d stagnant_week ?e items]
      ten_rows_run march_window(2) items
    by blast
  have b: "adjustment_note (weekly_adjustment (stagnant_week\<lparr>stagnation_flag := False, overload_flag := True\<rparr>)) = note_overload"
    "adjustment_note (weekly_adjustment (stagnant_week\<lparr>stagnation_flag := False, w_completion_rate := Finite 1\<rparr>)) = note_increase"
    "adjustment_note (weekly_adjustment (stagnant_week\<lparr>stagnation_flag := False, w_completion_rate := lit_0_8\<rparr>)) = note_no_change"
    using weekly_adjustment_precedence [of "stagnant_week\<lparr>stagnation_flag := False, overload_flag := True\<rparr>"]
      weekly_adjustment_precedence [of "stagnant_week\<lparr>stagnation_flag := False, w_completion_rate := Finite 1\<rparr>"]
      weekly_adjustment_precedence [of "stagnant_week\<lparr>stagnation_flag := False, w_completion_rate := lit_0_8\<rparr>"]
      float_checks(4,5)
    by (simp_all add: stagnant_week_def)
  from ten_rows_run a b show ?thesis by blast
qed

text \<open>
  For the week of user 42 with ten tasks and none done, the note is the Russian literal,
  not the English text \<^verbatim>\<open>reduce load: stagnation\<close> that the claim quotes.
\<close>

theorem weekly_adjustment_note_literal:
  "weekly_summary ten_rows_storage 42 day_42 = Inr stagnant_week
   \<and> length (assignments_in_window ten_rows_storage 42 day_42
        march_10) = 10
   \<and> count_status DONE (assignments_in_window ten_rows_storage 42 day_42
        march_10) = 0
   \<and> adjustment_note (weekly_adjustment stagnant_week) \<noteq> ''reduce load: stagnation''"
  using ten_rows_run sample_week_counts(1,2)
  by (simp add: weekly_adjustment_def stagnant_week_def note_stagnation_def)

subsection \<open>The weekly summary\<close>



subsection \<open>The date of a daily summary\<close>





end
